theory Spec2Isabelle
  imports Main "HOL-Library.Char_ord" "HOL-Library.List_Lexorder" "HOL-Library.Product_Lexorder"
begin

section \<open>The state store (services/state_manager.py, SCHEMA_SQL)\<close>

text \<open>
  Every table of the schema is a list of rows in insertion order. A \<open>TEXT\<close> column is a
  \<open>string\<close>, a nullable column an \<open>option\<close> (\<open>None\<close> is SQL \<open>NULL\<close>), and a
  \<open>status\<close> column, which the schema restricts by a \<open>CHECK (status IN (...))\<close>
  constraint, is a datatype with exactly the listed values. Timestamps are the text
  that \<open>datetime('now')\<close> or \<open>datetime.now().isoformat()\<close> produce; they are compared
  as text, byte by byte, which is the order on \<open>string\<close> used here. The reading of the
  clock is an argument (\<open>now\<close>) of every operation that stamps a row, and the identifier
  that \<open>uuid.uuid4()\<close> draws is an argument (\<open>event_id\<close>) of \<open>publish_event\<close>.
  Columns that hold JSON text written by \<open>json.dumps\<close> and read back by
  \<open>json.loads\<close> hold the encoded value itself.
\<close>

datatype feature_status = FeatReady | FeatInProgress | FeatDone | FeatFailed

datatype convoy_status = Available | ConvInProgress | ConvDone | Blocked

datatype task_status = Todo | InProgress | InReview | InTests | InDocs | Done

datatype event_status = Pending | Processing | EvDone | EvFailed

datatype session_status = Active | Crashed | Hung | Stuck

datatype agent_type = Manager | Cab | Refinery | Librarian | Developer | Tester

text \<open>JSON values of event payloads and gate details. \<open>JReal n\<close> is the Python \<open>float\<close> whose
  value is the integer \<open>n\<close> (the only floats a payload built below can hold).\<close>

datatype json = JStr string | JInt int | JReal int | JBool bool | JNull

datatype error = IntegrityError | ValueError string | OverflowError

record feature =
  f_id :: string
  f_name :: string
  f_spec_path :: string
  f_status :: feature_status
  f_created_at :: string
  f_started_at :: "string option"
  f_completed_at :: "string option"

record convoy =
  c_id :: string
  c_feature_id :: string
  c_story :: string
  c_priority :: string
  c_status :: convoy_status
  c_files :: "string list"
  c_dependencies :: "string list option"
  c_assignee :: "string option"
  c_created_at :: string
  c_started_at :: "string option"
  c_completed_at :: "string option"

record task =
  t_id :: string
  t_convoy_id :: string
  t_title :: string
  t_description :: string
  t_file_path :: string
  t_status :: task_status
  t_priority :: string
  t_assignee :: "string option"
  t_acceptance_criteria :: string
  t_validation_results :: "string option"
  t_failure_reason :: "string option"
  t_failure_count :: int
  t_created_at :: string
  t_started_at :: "string option"
  t_completed_at :: "string option"

record event =
  e_id :: string
  e_agent_id :: string
  e_event_type :: string
  e_payload :: "(string \<times> json) list"
  e_status :: event_status
  e_created_at :: string
  e_processed_at :: "string option"

record agent_session =
  a_agent_id :: string
  a_agent_type :: agent_type
  a_convoy_id :: "string option"
  a_current_task :: "string option"
  a_worktree :: "string option"
  a_status :: session_status
  a_last_heartbeat :: string
  a_started_at :: string
  a_crashed_at :: "string option"

record db =
  features :: "feature list"
  convoys :: "convoy list"
  tasks :: "task list"
  events :: "event list"
  agent_sessions :: "agent_session list"

text \<open>Python truthiness of an \<open>Optional[str]\<close>: \<open>None\<close> and the empty string are false.\<close>

fun truthy :: "string option \<Rightarrow> bool" where
  "truthy None = False"
| "truthy (Some v) = (v \<noteq> [])"

section \<open>Task operations\<close>

text \<open>\<open>get_task\<close>: \<open>SELECT * FROM tasks WHERE id = ?\<close>, \<open>fetchone()\<close>.\<close>

definition get_task :: "db \<Rightarrow> string \<Rightarrow> task option" where
  "get_task conn task_id = find (\<lambda>t. t_id t = task_id) (tasks conn)"

text \<open>\<open>UPDATE tasks SET ... WHERE id = ?\<close>.\<close>

definition update_tasks_where_id :: "db \<Rightarrow> string \<Rightarrow> (task \<Rightarrow> task) \<Rightarrow> db" where
  "update_tasks_where_id conn task_id upd =
     conn\<lparr>tasks := map (\<lambda>t. if t_id t = task_id then upd t else t) (tasks conn)\<rparr>"

definition claim_task_atomic :: "db \<Rightarrow> string \<Rightarrow> string \<Rightarrow> string \<Rightarrow> bool \<times> db" where
  "claim_task_atomic conn task_id assignee now =
     (case get_task conn task_id of
        None \<Rightarrow> (False, conn)
      | Some row \<Rightarrow>
          if t_status row = Todo \<and> t_assignee row = None
          then (True, update_tasks_where_id conn task_id
                  (\<lambda>t. t\<lparr>t_status := InProgress, t_assignee := Some assignee,
                          t_started_at := Some now\<rparr>))
          else (False, conn))"

definition timestamp_field :: "task_status \<Rightarrow> string \<Rightarrow> task \<Rightarrow> task" where
  "timestamp_field status now t =
     (if status = InProgress then t\<lparr>t_started_at := Some now\<rparr>
      else if status = Done then t\<lparr>t_completed_at := Some now\<rparr>
      else t)"

definition update_task_status ::
  "db \<Rightarrow> string \<Rightarrow> task_status \<Rightarrow> string option \<Rightarrow> string \<Rightarrow> db" where
  "update_task_status conn task_id status assignee now =
     update_tasks_where_id conn task_id
       (\<lambda>t. if truthy assignee
            then timestamp_field status now (t\<lparr>t_status := status, t_assignee := assignee\<rparr>)
            else timestamp_field status now (t\<lparr>t_status := status\<rparr>))"

text \<open>
  The column \<open>failure_count\<close> is an SQLite \<open>INTEGER\<close>: a stored count is a 64-bit signed
  integer, from \<open>- 2^63\<close> to \<open>2^63 - 1\<close>. The sum \<open>failure_count + 1\<close> is exact as long as
  it fits; at \<open>2^63 - 1\<close> it overflows, and SQLite then computes it as the \<open>REAL\<close>
  \<open>9223372036854775808.0\<close>, which is stored as it is and which another \<open>+ 1\<close> leaves
  unchanged. In a row the value \<open>2^63\<close> of \<open>t_failure_count\<close> stands for that \<open>REAL\<close>;
  Python reads it as a \<open>float\<close>, and \<open>json.dumps\<close> writes it as one.
\<close>

definition sqlite_add_one :: "int \<Rightarrow> int" where
  "sqlite_add_one n = (if n < 2 ^ 63 - 1 then n + 1 else 2 ^ 63)"

definition json_number :: "int \<Rightarrow> json" where
  "json_number n = (if n < 2 ^ 63 then JInt n else JReal n)"

definition increment_task_failure_count :: "db \<Rightarrow> string \<Rightarrow> string \<Rightarrow> int \<times> db" where
  "increment_task_failure_count conn task_id failure_reason =
     (let conn' = update_tasks_where_id conn task_id
                    (\<lambda>t. t\<lparr>t_failure_count := sqlite_add_one (t_failure_count t),
                            t_failure_reason := Some failure_reason\<rparr>)
      in (case get_task conn' task_id of
            Some row \<Rightarrow> (t_failure_count row, conn')
          | None \<Rightarrow> (0, conn')))"

subsection \<open>The task state machine\<close>

definition VALID_TASK_TRANSITIONS :: "(task_status \<times> task_status list) list" where
  "VALID_TASK_TRANSITIONS =
     [(Todo, [InProgress]),
      (InProgress, [InReview, Todo]),
      (InReview, [InTests, InProgress]),
      (InTests, [InDocs, InProgress]),
      (InDocs, [Done, InProgress]),
      (Done, [])]"

definition validate_task_transition :: "task_status \<Rightarrow> task_status \<Rightarrow> bool" where
  "validate_task_transition from_status to_status =
     (to_status \<in> set (case map_of VALID_TASK_TRANSITIONS from_status of
                          Some targets \<Rightarrow> targets
                        | None \<Rightarrow> []))"

definition transition_task_status :: "db \<Rightarrow> string \<Rightarrow> task_status \<Rightarrow> string \<Rightarrow> bool \<times> db" where
  "transition_task_status conn task_id to_status now =
     (case get_task conn task_id of
        None \<Rightarrow> (False, conn)
      | Some task \<Rightarrow>
          if \<not> validate_task_transition (t_status task) to_status then (False, conn)
          else (True, update_task_status conn task_id to_status None now))"

text \<open>\<open>SELECT * FROM tasks WHERE convoy_id = ? [AND status = ?] ORDER BY created_at\<close>.\<close>

definition list_tasks_by_convoy :: "db \<Rightarrow> string \<Rightarrow> task_status option \<Rightarrow> task list" where
  "list_tasks_by_convoy conn convoy_id status =
     (case status of
        Some st \<Rightarrow> sort_key t_created_at
                     (filter (\<lambda>t. t_convoy_id t = convoy_id \<and> t_status t = st) (tasks conn))
      | None \<Rightarrow> sort_key t_created_at (filter (\<lambda>t. t_convoy_id t = convoy_id) (tasks conn)))"

section \<open>Event queue operations\<close>

text \<open>
  \<open>publish_event\<close> inserts a row whose \<open>id\<close> is the primary key of the table: an
  identifier that is already there makes the \<open>INSERT\<close> raise, and nothing is stored.
\<close>

definition publish_event ::
  "db \<Rightarrow> string \<Rightarrow> string \<Rightarrow> (string \<times> json) list \<Rightarrow> string \<Rightarrow> string \<Rightarrow> (error + string) \<times> db" where
  "publish_event conn agent_id event_type payload event_id now =
     (if event_id \<in> set (map e_id (events conn)) then (Inl IntegrityError, conn)
      else (Inr event_id,
            conn\<lparr>events := events conn @
              [\<lparr>e_id = event_id, e_agent_id = agent_id, e_event_type = event_type,
                e_payload = payload, e_status = Pending, e_created_at = now,
                e_processed_at = None\<rparr>]\<rparr>))"



definition acknowledge_event :: "db \<Rightarrow> string \<Rightarrow> bool \<Rightarrow> string \<Rightarrow> db" where
  "acknowledge_event conn event_id success now =
     (let status = (if success then EvDone else EvFailed)
      in conn\<lparr>events := map (\<lambda>e. if e_id e = event_id
                                   then e\<lparr>e_status := status, e_processed_at := Some now\<rparr>
                                   else e) (events conn)\<rparr>)"




section \<open>Rejection\<close>

text \<open>\<open>reject_task\<close> of services/state_manager.py; it returns nothing, so the result is the
  exception that escaped (if any) and the store.\<close>

definition reject_task ::
  "db \<Rightarrow> string \<Rightarrow> string \<Rightarrow> string \<Rightarrow> string \<Rightarrow> string \<Rightarrow> string \<Rightarrow> error option \<times> db" where
  "reject_task conn task_id reason rejecting_agent now event_id event_now =
     (case get_task conn task_id of
        None \<Rightarrow> (None, conn)
      | Some task \<Rightarrow>
          let (failure_count, conn1) = increment_task_failure_count conn task_id reason;
              conn2 = snd (transition_task_status conn1 task_id InProgress now)
          in if failure_count \<ge> 3
             then (case publish_event conn2 ''manager'' ''ESCALATE_TASK''
                          [(''task_id'', JStr task_id), (''failure_count'', json_number failure_count)]
                          event_id event_now of
                     (Inl e, conn3) \<Rightarrow> (Some e, conn3)
                   | (Inr _, conn3) \<Rightarrow> (None, conn3))
             else (None, conn2))"

text \<open>\<open>CABAgent.reject_task\<close> of core/cab.py.\<close>

definition CABAgent_reject_task ::
  "db \<Rightarrow> string \<Rightarrow> string \<Rightarrow> string \<Rightarrow> string \<Rightarrow> string \<Rightarrow> error option \<times> db" where
  "CABAgent_reject_task conn task_id reason now event_id event_now =
     (let conn1 = update_task_status conn task_id InProgress None now
      in case publish_event conn1 ''developer'' ''REWORK_NEEDED''
                [(''task_id'', JStr task_id), (''reason'', JStr reason)] event_id event_now of
           (Inl e, conn2) \<Rightarrow> (Some e, conn2)
         | (Inr _, conn2) \<Rightarrow> (None, conn2))"

section \<open>Feature and convoy operations\<close>

definition get_feature :: "db \<Rightarrow> string \<Rightarrow> feature option" where
  "get_feature conn feature_id = find (\<lambda>f. f_id f = feature_id) (features conn)"

definition update_feature_status :: "db \<Rightarrow> string \<Rightarrow> feature_status \<Rightarrow> string \<Rightarrow> db" where
  "update_feature_status conn feature_id status now =
     conn\<lparr>features := map (\<lambda>f. if f_id f = feature_id
                                then (if status = FeatInProgress
                                      then f\<lparr>f_status := status, f_started_at := Some now\<rparr>
                                      else if status = FeatDone \<or> status = FeatFailed
                                      then f\<lparr>f_status := status, f_completed_at := Some now\<rparr>
                                      else f\<lparr>f_status := status\<rparr>)
                                else f) (features conn)\<rparr>"

text \<open>
  \<open>create_convoy\<close>: the \<open>INSERT\<close> raises \<open>sqlite3.IntegrityError\<close> when the primary key
  is taken or when the feature it references does not exist (foreign keys are on).
\<close>

definition create_convoy ::
  "db \<Rightarrow> string \<Rightarrow> string \<Rightarrow> string \<Rightarrow> string \<Rightarrow> string list \<Rightarrow> string list option \<Rightarrow>
   convoy_status \<Rightarrow> string \<Rightarrow> (error + unit) \<times> db" where
  "create_convoy conn convoy_id feature_id story priority files dependencies status now =
     (if convoy_id \<in> set (map c_id (convoys conn)) \<or> feature_id \<notin> set (map f_id (features conn))
      then (Inl IntegrityError, conn)
      else (Inr (),
            conn\<lparr>convoys := convoys conn @
              [\<lparr>c_id = convoy_id, c_feature_id = feature_id, c_story = story,
                c_priority = priority, c_status = status, c_files = files,
                c_dependencies = Some (case dependencies of None \<Rightarrow> [] | Some ds \<Rightarrow> ds),
                c_assignee = None, c_created_at = now, c_started_at = None,
                c_completed_at = None\<rparr>]\<rparr>))"

definition get_convoy :: "db \<Rightarrow> string \<Rightarrow> convoy option" where
  "get_convoy conn convoy_id = find (\<lambda>c. c_id c = convoy_id) (convoys conn)"

definition update_convoy_status ::
  "db \<Rightarrow> string \<Rightarrow> convoy_status \<Rightarrow> string option \<Rightarrow> string \<Rightarrow> db" where
  "update_convoy_status conn convoy_id status assignee now =
     conn\<lparr>convoys := map (\<lambda>c. if c_id c = convoy_id
                               then (if status = ConvInProgress
                                     then c\<lparr>c_status := status, c_assignee := assignee,
                                            c_started_at := Some now\<rparr>
                                     else if status = ConvDone
                                     then c\<lparr>c_status := status, c_assignee := assignee,
                                            c_completed_at := Some now\<rparr>
                                     else c\<lparr>c_status := status, c_assignee := assignee\<rparr>)
                               else c) (convoys conn)\<rparr>"

text \<open>\<open>SELECT * FROM convoys WHERE feature_id = ? [AND status = ?] ORDER BY priority\<close>.\<close>

definition list_convoys_by_feature :: "db \<Rightarrow> string \<Rightarrow> convoy_status option \<Rightarrow> convoy list" where
  "list_convoys_by_feature conn feature_id status =
     (case status of
        Some st \<Rightarrow> sort_key c_priority
                     (filter (\<lambda>c. c_feature_id c = feature_id \<and> c_status c = st) (convoys conn))
      | None \<Rightarrow> sort_key c_priority (filter (\<lambda>c. c_feature_id c = feature_id) (convoys conn)))"

definition update_convoy_files :: "db \<Rightarrow> string \<Rightarrow> string list \<Rightarrow> db" where
  "update_convoy_files conn convoy_id files =
     conn\<lparr>convoys := map (\<lambda>c. if c_id c = convoy_id then c\<lparr>c_files := files\<rparr> else c) (convoys conn)\<rparr>"

subsection \<open>Completion detection\<close>

definition check_convoy_completion :: "db \<Rightarrow> string \<Rightarrow> string \<Rightarrow> bool \<times> db" where
  "check_convoy_completion conn convoy_id now =
     (let ts = list_tasks_by_convoy conn convoy_id None
      in if ts = [] then (False, conn)
         else let all_done = list_all (\<lambda>t. t_status t = Done) ts
              in (all_done,
                  if all_done then update_convoy_status conn convoy_id ConvDone None now else conn))"

definition check_feature_completion :: "db \<Rightarrow> string \<Rightarrow> string \<Rightarrow> bool \<times> db" where
  "check_feature_completion conn feature_id now =
     (let cs = list_convoys_by_feature conn feature_id None
      in if cs = [] then (False, conn)
         else let all_done = list_all (\<lambda>c. c_status c = ConvDone) cs
              in (all_done,
                  if all_done then update_feature_status conn feature_id FeatDone now else conn))"

subsection \<open>File overlap validation\<close>

text \<open>
  One conflict of \<open>check_file_overlap\<close>. Python builds \<open>overlapping_files\<close> from a set,
  whose order of iteration is not fixed; here the files are listed in the order of
  their first occurrence in \<open>proposed_files\<close>.
\<close>

record conflict =
  cf_convoy_id :: string
  cf_convoy_status :: convoy_status
  cf_overlapping_files :: "string list"

fun check_file_overlap_loop :: "string list \<Rightarrow> convoy list \<Rightarrow> conflict list" where
  "check_file_overlap_loop proposed_files [] = []"
| "check_file_overlap_loop proposed_files (c # cs) =
     (if c_status c = ConvDone then check_file_overlap_loop proposed_files cs
      else
        let overlapping = filter (\<lambda>f. f \<in> set (c_files c)) (remdups proposed_files)
        in if overlapping \<noteq> []
           then \<lparr>cf_convoy_id = c_id c, cf_convoy_status = c_status c,
                 cf_overlapping_files = overlapping\<rparr> # check_file_overlap_loop proposed_files cs
           else check_file_overlap_loop proposed_files cs)"

definition check_file_overlap :: "db \<Rightarrow> string \<Rightarrow> string list \<Rightarrow> conflict list" where
  "check_file_overlap conn feature_id proposed_files =
     check_file_overlap_loop proposed_files (list_convoys_by_feature conn feature_id None)"

fun join :: "string \<Rightarrow> string list \<Rightarrow> string" where
  "join sep [] = []"
| "join sep [x] = x"
| "join sep (x # y # ys) = x @ sep @ join sep (y # ys)"

definition validate_no_file_conflicts :: "db \<Rightarrow> string \<Rightarrow> string list \<Rightarrow> error + unit" where
  "validate_no_file_conflicts conn feature_id proposed_files =
     (let conflicts = check_file_overlap conn feature_id proposed_files
      in if conflicts \<noteq> []
         then Inl (ValueError
                (''File conflicts detected for feature '' @ feature_id @ '':\<newline>'' @
                 concat (map (\<lambda>cf. ''  - Convoy '' @ cf_convoy_id cf @ '': '' @
                                     join '', '' (cf_overlapping_files cf) @ ''\<newline>'') conflicts)))
         else Inr ())"

section \<open>Convoy allocation (services/convoy_allocator.py)\<close>

fun dependencies_done :: "db \<Rightarrow> string list \<Rightarrow> bool" where
  "dependencies_done conn [] = True"
| "dependencies_done conn (dep_id # deps) =
     (case get_convoy conn dep_id of
        None \<Rightarrow> False
      | Some dep_convoy \<Rightarrow>
          if c_status dep_convoy \<noteq> ConvDone then False else dependencies_done conn deps)"

definition check_convoy_dependencies_met :: "db \<Rightarrow> string \<Rightarrow> bool" where
  "check_convoy_dependencies_met conn convoy_id =
     (case get_convoy conn convoy_id of
        None \<Rightarrow> False
      | Some convoy \<Rightarrow>
          (case c_dependencies convoy of
             None \<Rightarrow> True
           | Some dependencies \<Rightarrow>
               if dependencies = [] then True else dependencies_done conn dependencies))"

definition allocate_next_convoy :: "db \<Rightarrow> string \<Rightarrow> string \<Rightarrow> string \<Rightarrow> string option \<times> db" where
  "allocate_next_convoy conn feature_id agent_id now =
     (let cs = list_convoys_by_feature conn feature_id (Some Available)
      in if cs = [] then (None, conn)
         else (case sort_key (\<lambda>c. (c_priority c, c_created_at c)) cs of
                 [] \<Rightarrow> (None, conn)
               | convoy # _ \<Rightarrow>
                   if \<not> check_convoy_dependencies_met conn (c_id convoy) then (None, conn)
                   else (Some (c_id convoy),
                         update_convoy_status conn (c_id convoy) ConvInProgress (Some agent_id) now)))"

fun unblock_loop :: "db \<Rightarrow> convoy list \<Rightarrow> nat \<Rightarrow> string \<Rightarrow> nat \<times> db" where
  "unblock_loop conn [] count now = (count, conn)"
| "unblock_loop conn (convoy # rest) count now =
     (if check_convoy_dependencies_met conn (c_id convoy)
      then unblock_loop (update_convoy_status conn (c_id convoy) Available None now) rest (count + 1) now
      else unblock_loop conn rest count now)"

definition unblock_dependent_convoys :: "db \<Rightarrow> string \<Rightarrow> string \<Rightarrow> nat \<times> db" where
  "unblock_dependent_convoys conn completed_convoy_id now =
     (case get_convoy conn completed_convoy_id of
        None \<Rightarrow> (0, conn)
      | Some completed_convoy \<Rightarrow>
          unblock_loop conn
            (list_convoys_by_feature conn (c_feature_id completed_convoy) (Some Blocked)) 0 now)"

text \<open>What the dependency check reads of a convoy row: its identifier, its feature, its
  dependencies and whether it is done.\<close>

definition gate_view :: "convoy \<Rightarrow> string \<times> string \<times> string list option \<times> bool" where
  "gate_view c = (c_id c, c_feature_id c, c_dependencies c, c_status c = ConvDone)"

section \<open>Health monitor (services/health_monitor.py)\<close>

text \<open>\<open>UPDATE agent_sessions SET last_heartbeat = ? WHERE agent_id = ? AND status = 'active'\<close>.\<close>

definition record_heartbeat :: "db \<Rightarrow> string \<Rightarrow> string \<Rightarrow> db" where
  "record_heartbeat conn agent_id now =
     conn\<lparr>agent_sessions := map (\<lambda>a. if a_agent_id a = agent_id \<and> a_status a = Active
                                      then a\<lparr>a_last_heartbeat := now\<rparr> else a)
                                (agent_sessions conn)\<rparr>"

section \<open>Quality gates (services/quality_gates.py)\<close>

text \<open>
  The score of a gate is a Python \<open>float\<close>; its type is left as the parameter \<open>'f\<close>.
  What an external tool does when a gate runs it is an input: the gate's method either
  returns a result or lets an exception escape to \<open>run_gate\<close>.
\<close>

datatype GateType =
  LINTING | TYPE_CHECKING | COMPLEXITY | COVERAGE | MUTATION | SAST | DEPENDENCY_SCAN
  | SECRET_DETECTION

datatype GateStatus = PASS | FAIL | SKIP | ERROR

record 'f GateResult =
  g_gate_type :: GateType
  g_status :: GateStatus
  g_message :: string
  g_details :: "(string \<times> json) list"
  g_score :: "'f option"

datatype 'f gate_run = Returns "'f GateResult" | Raises string

definition run_gate ::
  "(GateType \<Rightarrow> 'f gate_run) \<Rightarrow> 'f GateResult list \<Rightarrow> GateType \<Rightarrow> bool \<Rightarrow> 'f GateResult list" where
  "run_gate tools results gt required =
     (let result = (case tools gt of
                      Returns r \<Rightarrow> r
                    | Raises e \<Rightarrow>
                        \<lparr>g_gate_type = gt, g_status = (if required then ERROR else SKIP),
                         g_message = ''Gate execution failed: '' @ e,
                         g_details = [(''error'', JStr e)], g_score = None\<rparr>)
      in results @ [result])"

definition run_all_gates :: "(GateType \<Rightarrow> 'f gate_run) \<Rightarrow> string \<Rightarrow> 'f GateResult list" where
  "run_all_gates tools stage =
     (if stage = ''review''
      then run_gate tools (run_gate tools (run_gate tools [] LINTING True) TYPE_CHECKING True)
             COMPLEXITY True
      else if stage = ''tests''
      then run_gate tools (run_gate tools [] COVERAGE True) MUTATION False
      else if stage = ''merge''
      then run_gate tools (run_gate tools (run_gate tools [] SAST True) DEPENDENCY_SCAN True)
             SECRET_DETECTION True
      else [])"

fun all_gates_passed :: "'f GateResult list \<Rightarrow> bool" where
  "all_gates_passed [] = True"
| "all_gates_passed (result # results) =
     (if g_status result = FAIL then False
      else if g_status result = ERROR then False
      else all_gates_passed results)"

section \<open>Example rows and stores\<close>

text \<open>Rows as \<open>create_task\<close> and \<open>publish_event\<close> store them, for the concrete instances below.\<close>

definition example_task :: "string \<Rightarrow> task_status \<Rightarrow> string option \<Rightarrow> int \<Rightarrow> task" where
  "example_task tid st asg n =
     \<lparr>t_id = tid, t_convoy_id = ''C1'', t_title = ''Add parser'',
      t_description = ''Add the parser'', t_file_path = ''src/a.py'', t_status = st,
      t_priority = ''P1'', t_assignee = asg, t_acceptance_criteria = ''[]'',
      t_validation_results = None, t_failure_reason = None, t_failure_count = n,
      t_created_at = ''2026-01-01 00:00:00'', t_started_at = None, t_completed_at = None\<rparr>"

definition store_of_tasks :: "task list \<Rightarrow> db" where
  "store_of_tasks ts = \<lparr>features = [], convoys = [], tasks = ts, events = [], agent_sessions = []\<rparr>"

definition example_event ::
  "string \<Rightarrow> string \<Rightarrow> event_status \<Rightarrow> string \<Rightarrow> string option \<Rightarrow> event" where
  "example_event eid agent st created processed =
     \<lparr>e_id = eid, e_agent_id = agent, e_event_type = ''RUN_TESTS'',
      e_payload = [(''task_id'', JStr ''T1'')], e_status = st, e_created_at = created,
      e_processed_at = processed\<rparr>"

definition store_of_events :: "event list \<Rightarrow> db" where
  "store_of_events es = \<lparr>features = [], convoys = [], tasks = [], events = es, agent_sessions = []\<rparr>"

definition example_session :: "string \<Rightarrow> session_status \<Rightarrow> string \<Rightarrow> agent_session" where
  "example_session aid st beat =
     \<lparr>a_agent_id = aid, a_agent_type = Developer, a_convoy_id = None, a_current_task = None,
      a_worktree = None, a_status = st, a_last_heartbeat = beat,
      a_started_at = ''2026-01-01T00:00:00'', a_crashed_at = None\<rparr>"

definition store_of_sessions :: "agent_session list \<Rightarrow> db" where
  "store_of_sessions ss = \<lparr>features = [], convoys = [], tasks = [], events = [], agent_sessions = ss\<rparr>"

text \<open>A run of stage \<open>tests\<close> in which coverage meets its threshold and the mutation score
  (50 percent) is below its threshold; the other tools are not installed.\<close>

definition example_tools :: "GateType \<Rightarrow> int gate_run" where
  "example_tools gt =
     (if gt = COVERAGE
      then Returns \<lparr>g_gate_type = COVERAGE, g_status = PASS,
                    g_message = ''Coverage 90.0% meets threshold 80%'', g_details = [],
                    g_score = Some 90\<rparr>
      else if gt = MUTATION
      then Returns \<lparr>g_gate_type = MUTATION, g_status = FAIL,
                    g_message = ''Mutation score 50.0% below threshold 80%'', g_details = [],
                    g_score = Some 50\<rparr>
      else Returns \<lparr>g_gate_type = gt, g_status = SKIP, g_message = ''tool not installed'',
                    g_details = [], g_score = None\<rparr>)"



text \<open>Rows as \<open>create_feature\<close> and \<open>create_convoy\<close> store them.\<close>

definition example_feature :: "string \<Rightarrow> feature" where
  "example_feature fid =
     \<lparr>f_id = fid, f_name = ''Parser'', f_spec_path = ''specs/001-parser'', f_status = FeatInProgress,
      f_created_at = ''2026-01-01 00:00:00'', f_started_at = None, f_completed_at = None\<rparr>"

definition example_convoy ::
  "string \<Rightarrow> string \<Rightarrow> string \<Rightarrow> convoy_status \<Rightarrow> string list \<Rightarrow> string list \<Rightarrow> string \<Rightarrow> convoy" where
  "example_convoy cid fid priority st files deps created =
     \<lparr>c_id = cid, c_feature_id = fid, c_story = ''US1'', c_priority = priority, c_status = st,
      c_files = files, c_dependencies = Some deps, c_assignee = None, c_created_at = created,
      c_started_at = None, c_completed_at = None\<rparr>"

definition store_of_convoys :: "feature list \<Rightarrow> convoy list \<Rightarrow> db" where
  "store_of_convoys fs cs = \<lparr>features = fs, convoys = cs, tasks = [], events = [], agent_sessions = []\<rparr>"

text \<open>
  Two features. In \<open>F1\<close> convoy \<open>C_b\<close> is done and \<open>C_a\<close>, which depends on it, is still
  blocked. In \<open>F2\<close> three convoys are available: \<open>C_e\<close> has the best priority, and of the
  two convoys of priority \<open>P2\<close> the row stored last is the older one.
\<close>

definition example_convoys :: db where
  "example_convoys = store_of_convoys [example_feature ''F1'', example_feature ''F2'']
     [example_convoy ''C_b'' ''F1'' ''P1'' ConvDone [''src/b.py''] [] ''2026-01-01 00:00:01'',
      example_convoy ''C_a'' ''F1'' ''P2'' Blocked [''src/a.py''] [''C_b''] ''2026-01-01 00:00:02'',
      example_convoy ''C_c'' ''F2'' ''P2'' Available [''src/c.py''] [] ''2026-01-01 00:00:04'',
      example_convoy ''C_d'' ''F2'' ''P2'' Available [''src/d.py''] [] ''2026-01-01 00:00:03'',
      example_convoy ''C_e'' ''F2'' ''P1'' Available [''src/e.py''] [] ''2026-01-01 00:00:05'']"
section \<open>Tasks: lookups after an update\<close>

lemma validate_task_transition_cases:
  "validate_task_transition a b \<longleftrightarrow>
     (a, b) \<in> {(Todo, InProgress), (InProgress, InReview), (InReview, InTests),
                (InReview, InProgress), (InTests, InDocs), (InTests, InProgress),
                (InDocs, Done), (InDocs, InProgress), (InProgress, Todo)}"
  by (cases a; cases b) (simp_all add: validate_task_transition_def VALID_TASK_TRANSITIONS_def)

lemma find_map_update_id:
  "find (\<lambda>t. t_id t = k) xs = Some r \<Longrightarrow> t_id (upd r) = k \<Longrightarrow>
   find (\<lambda>t. t_id t = k) (map (\<lambda>t. if t_id t = k then upd t else t) xs) = Some (upd r)"
  by (induction xs) (auto split: if_splits)

lemma find_map_update_other:
  "k' \<noteq> k \<Longrightarrow> (\<And>t. t_id (upd t) = t_id t) \<Longrightarrow>
   find (\<lambda>t. t_id t = k') (map (\<lambda>t. if t_id t = k then upd t else t) xs)
     = find (\<lambda>t. t_id t = k') xs"
  by (induction xs) auto

lemma find_Some_id: "find (\<lambda>t. t_id t = k) xs = Some r \<Longrightarrow> t_id r = k"
  by (induction xs) (auto split: if_splits)

lemma t_id_timestamp_field [simp]: "t_id (timestamp_field st now t) = t_id t"
  by (simp add: timestamp_field_def)

lemma t_status_timestamp_field [simp]: "t_status (timestamp_field st now t) = t_status t"
  by (simp add: timestamp_field_def)

lemma get_task_update_task_status:
  "get_task conn k = Some r \<Longrightarrow>
   \<exists>r'. get_task (update_task_status conn k st None now) k = Some r' \<and> t_status r' = st"
proof -
  assume g: "get_task conn k = Some r"
  let ?upd = "\<lambda>t. timestamp_field st now (t\<lparr>t_status := st\<rparr>)"
  have f: "find (\<lambda>t. t_id t = k) (tasks conn) = Some r"
    using g by (simp add: get_task_def)
  have i: "t_id (?upd r) = k"
    using find_Some_id [OF f] by simp
  have "get_task (update_task_status conn k st None now) k = Some (?upd r)"
    using find_map_update_id [of k "tasks conn" r ?upd, OF f i]
    by (simp add: get_task_def update_task_status_def update_tasks_where_id_def)
  then show ?thesis by simp
qed


section \<open>Rejection\<close>

lemma events_update_tasks_where_id [simp]:
  "events (update_tasks_where_id conn k upd) = events conn"
  by (simp add: update_tasks_where_id_def)

lemma events_update_task_status [simp]:
  "events (update_task_status conn k st asg now) = events conn"
  by (simp add: update_task_status_def)

lemma get_task_update_tasks_where_id:
  assumes g: "get_task conn k = Some r" and i: "t_id (upd r) = k"
  shows "get_task (update_tasks_where_id conn k upd) k = Some (upd r)"
proof -
  have f: "find (\<lambda>t. t_id t = k) (tasks conn) = Some r"
    using g by (simp add: get_task_def)
  show ?thesis
    using find_map_update_id [of k "tasks conn" r upd, OF f i]
    by (simp add: get_task_def update_tasks_where_id_def)
qed

lemma get_task_id: "get_task conn k = Some r \<Longrightarrow> t_id r = k"
  unfolding get_task_def by (rule find_Some_id)

lemma increment_task_failure_count_row:
  assumes g: "get_task conn k = Some r"
  shows "\<exists>conn1 r1. increment_task_failure_count conn k reason =
               (sqlite_add_one (t_failure_count r), conn1)
           \<and> get_task conn1 k = Some r1 \<and> events conn1 = events conn
           \<and> t_failure_count r1 = sqlite_add_one (t_failure_count r)
           \<and> t_failure_reason r1 = Some reason
           \<and> t_status r1 = t_status r \<and> t_assignee r1 = t_assignee r"
proof -
  define upd :: "task \<Rightarrow> task" where
    "upd = (\<lambda>t. t\<lparr>t_failure_count := sqlite_add_one (t_failure_count t),
                  t_failure_reason := Some reason\<rparr>)"
  define conn1 where "conn1 = update_tasks_where_id conn k upd"
  have i: "t_id (upd r) = k" using get_task_id [OF g] by (simp add: upd_def)
  have g1: "get_task conn1 k = Some (upd r)"
    unfolding conn1_def by (rule get_task_update_tasks_where_id [of conn k r upd, OF g i])
  have e: "increment_task_failure_count conn k reason = (t_failure_count (upd r), conn1)"
    using g1 by (simp add: increment_task_failure_count_def Let_def conn1_def upd_def)
  have c: "t_failure_count (upd r) = sqlite_add_one (t_failure_count r)" by (simp add: upd_def)
  have "increment_task_failure_count conn k reason = (sqlite_add_one (t_failure_count r), conn1)"
    using e unfolding c .
  moreover have "events conn1 = events conn" by (simp add: conn1_def)
  moreover have "t_failure_reason (upd r) = Some reason" "t_status (upd r) = t_status r"
    "t_assignee (upd r) = t_assignee r" by (simp_all add: upd_def)
  ultimately show ?thesis using g1 c by blast
qed

lemma transition_task_status_in_progress_row:
  assumes g: "get_task conn k = Some r"
  shows "\<exists>r2. get_task (snd (transition_task_status conn k InProgress now)) k = Some r2
           \<and> events (snd (transition_task_status conn k InProgress now)) = events conn
           \<and> t_failure_count r2 = t_failure_count r \<and> t_failure_reason r2 = t_failure_reason r
           \<and> t_assignee r2 = t_assignee r
           \<and> t_status r2 = (if t_status r = Done then Done else InProgress)"
proof (cases "validate_task_transition (t_status r) InProgress")
  case False
  then have s: "snd (transition_task_status conn k InProgress now) = conn"
    using g by (simp add: transition_task_status_def)
  from False have "t_status r = Done \<or> t_status r = InProgress"
    unfolding validate_task_transition_cases by (cases "t_status r") simp_all
  then have "t_status r = (if t_status r = Done then Done else InProgress)" by auto
  with g show ?thesis unfolding s by simp
next
  case True
  define upd :: "task \<Rightarrow> task" where
    "upd = (\<lambda>t. timestamp_field InProgress now (t\<lparr>t_status := InProgress\<rparr>))"
  have s: "snd (transition_task_status conn k InProgress now) = update_tasks_where_id conn k upd"
    using g True by (simp add: transition_task_status_def update_task_status_def upd_def)
  have i: "t_id (upd r) = k" using get_task_id [OF g] by (simp add: upd_def)
  have g2: "get_task (update_tasks_where_id conn k upd) k = Some (upd r)"
    by (rule get_task_update_tasks_where_id [of conn k r upd, OF g i])
  from True have nd: "t_status r \<noteq> Done"
    unfolding validate_task_transition_cases by auto
  have "t_failure_count (upd r) = t_failure_count r" "t_failure_reason (upd r) = t_failure_reason r"
    "t_assignee (upd r) = t_assignee r" "t_status (upd r) = InProgress"
    by (simp_all add: upd_def timestamp_field_def)
  with g2 nd show ?thesis unfolding s by simp
qed

lemma get_task_publish_event [simp]:
  "get_task (snd (publish_event conn agent_id event_type payload event_id now)) k = get_task conn k"
  by (simp add: publish_event_def get_task_def)

lemma publish_event_fresh:
  assumes "event_id \<notin> e_id ` set (events conn)"
  shows "fst (publish_event conn agent_id event_type payload event_id now) = Inr event_id"
    and "events (snd (publish_event conn agent_id event_type payload event_id now)) =
           events conn @
             [\<lparr>e_id = event_id, e_agent_id = agent_id, e_event_type = event_type,
               e_payload = payload, e_status = Pending, e_created_at = now,
               e_processed_at = None\<rparr>]"
  using assms by (simp_all add: publish_event_def)

lemma reject_task_missing:
  "get_task conn k = None \<Longrightarrow>
     reject_task conn k reason rejecting_agent now event_id event_now = (None, conn)"
  by (simp add: reject_task_def)

lemma reject_task_existing:
  assumes g: "get_task conn k = Some r" and n: "n = sqlite_add_one (t_failure_count r)"
  shows "\<exists>conn2 r2. get_task conn2 k = Some r2 \<and> events conn2 = events conn
           \<and> t_failure_count r2 = n \<and> t_failure_reason r2 = Some reason
           \<and> t_assignee r2 = t_assignee r
           \<and> t_status r2 = (if t_status r = Done then Done else InProgress)
           \<and> reject_task conn k reason rejecting_agent now event_id event_now =
               (if n \<ge> 3
                then (case fst (publish_event conn2 ''manager'' ''ESCALATE_TASK''
                          [(''task_id'', JStr k), (''failure_count'', json_number n)]
                          event_id event_now) of
                        Inl e \<Rightarrow> Some e | Inr _ \<Rightarrow> None,
                      snd (publish_event conn2 ''manager'' ''ESCALATE_TASK''
                          [(''task_id'', JStr k), (''failure_count'', json_number n)]
                          event_id event_now))
                else (None, conn2))"
proof -
  from increment_task_failure_count_row [OF g, of reason, folded n] obtain conn1 r1 where
    i: "increment_task_failure_count conn k reason = (n, conn1)"
    and g1: "get_task conn1 k = Some r1" and e1: "events conn1 = events conn"
    and f1: "t_failure_count r1 = n" "t_failure_reason r1 = Some reason"
      "t_status r1 = t_status r" "t_assignee r1 = t_assignee r"
    by blast
  define conn2 where "conn2 = snd (transition_task_status conn1 k InProgress now)"
  from transition_task_status_in_progress_row [OF g1, of now, folded conn2_def] obtain r2 where
    g2: "get_task conn2 k = Some r2" and e2: "events conn2 = events conn1"
    and f2: "t_failure_count r2 = t_failure_count r1" "t_failure_reason r2 = t_failure_reason r1"
      "t_assignee r2 = t_assignee r1"
      "t_status r2 = (if t_status r1 = Done then Done else InProgress)"
    by blast
  have r: "reject_task conn k reason rejecting_agent now event_id event_now =
               (if n \<ge> 3
                then (case fst (publish_event conn2 ''manager'' ''ESCALATE_TASK''
                          [(''task_id'', JStr k), (''failure_count'', json_number n)]
                          event_id event_now) of
                        Inl e \<Rightarrow> Some e | Inr _ \<Rightarrow> None,
                      snd (publish_event conn2 ''manager'' ''ESCALATE_TASK''
                          [(''task_id'', JStr k), (''failure_count'', json_number n)]
                          event_id event_now))
                else (None, conn2))"
    unfolding reject_task_def conn2_def using g i
    by (simp add: Let_def split: prod.splits sum.splits)
  have "events conn2 = events conn" using e2 e1 by simp
  moreover have "t_failure_count r2 = n" using f2(1) f1(1) by simp
  moreover have "t_failure_reason r2 = Some reason" using f2(2) f1(2) by simp
  moreover have "t_assignee r2 = t_assignee r" using f2(3) f1(4) by simp
  moreover have "t_status r2 = (if t_status r = Done then Done else InProgress)"
    using f2(4) f1(3) by simp
  ultimately show ?thesis using g2 r by blast
qed

lemma sqlite_add_one_exact: "n < 2 ^ 63 - 1 \<Longrightarrow> sqlite_add_one n = n + 1"
  by (simp add: sqlite_add_one_def)

lemma json_number_int: "n < 2 ^ 63 \<Longrightarrow> json_number n = JInt n"
  by (simp add: json_number_def)

lemma CABAgent_reject_task_existing:
  assumes g: "get_task conn k = Some r" and fr: "event_id \<notin> e_id ` set (events conn)"
  shows "fst (CABAgent_reject_task conn k reason now event_id event_now) = None"
    and "\<exists>r'. get_task (snd (CABAgent_reject_task conn k reason now event_id event_now)) k = Some r'
            \<and> t_status r' = InProgress \<and> t_failure_count r' = t_failure_count r"
    and "events (snd (CABAgent_reject_task conn k reason now event_id event_now)) =
           events conn @
             [\<lparr>e_id = event_id, e_agent_id = ''developer'', e_event_type = ''REWORK_NEEDED'',
               e_payload = [(''task_id'', JStr k), (''reason'', JStr reason)],
               e_status = Pending, e_created_at = event_now, e_processed_at = None\<rparr>]"
proof -
  define upd :: "task \<Rightarrow> task" where
    "upd = (\<lambda>t. timestamp_field InProgress now (t\<lparr>t_status := InProgress\<rparr>))"
  define conn1 where "conn1 = update_task_status conn k InProgress None now"
  have c1: "conn1 = update_tasks_where_id conn k upd"
    by (simp add: conn1_def update_task_status_def upd_def)
  have i: "t_id (upd r) = k" using get_task_id [OF g] by (simp add: upd_def)
  have g1: "get_task conn1 k = Some (upd r)"
    unfolding c1 by (rule get_task_update_tasks_where_id [of conn k r upd, OF g i])
  have e1: "events conn1 = events conn" by (simp add: conn1_def)
  have fr1: "event_id \<notin> e_id ` set (events conn1)" using fr e1 by simp
  note p = publish_event_fresh [OF fr1, of "''developer''" "''REWORK_NEEDED''"
      "[(''task_id'', JStr k), (''reason'', JStr reason)]" event_now]
  have c: "CABAgent_reject_task conn k reason now event_id event_now =
      (case fst (publish_event conn1 ''developer'' ''REWORK_NEEDED''
                [(''task_id'', JStr k), (''reason'', JStr reason)] event_id event_now) of
         Inl e \<Rightarrow> Some e | Inr _ \<Rightarrow> None,
       snd (publish_event conn1 ''developer'' ''REWORK_NEEDED''
                [(''task_id'', JStr k), (''reason'', JStr reason)] event_id event_now))"
    unfolding CABAgent_reject_task_def conn1_def
    by (simp add: Let_def split: prod.splits sum.splits)
  show "fst (CABAgent_reject_task conn k reason now event_id event_now) = None"
    unfolding c using p(1) by simp
  have "t_status (upd r) = InProgress" "t_failure_count (upd r) = t_failure_count r"
    by (simp_all add: upd_def timestamp_field_def)
  then show "\<exists>r'. get_task (snd (CABAgent_reject_task conn k reason now event_id event_now)) k = Some r'
            \<and> t_status r' = InProgress \<and> t_failure_count r' = t_failure_count r"
    unfolding c using g1 by simp
  show "events (snd (CABAgent_reject_task conn k reason now event_id event_now)) =
           events conn @
             [\<lparr>e_id = event_id, e_agent_id = ''developer'', e_event_type = ''REWORK_NEEDED'',
               e_payload = [(''task_id'', JStr k), (''reason'', JStr reason)],
               e_status = Pending, e_created_at = event_now, e_processed_at = None\<rparr>]"
    unfolding c using p(2) e1 by simp
qed

text \<open>
  C1, as the code has it. \<open>reject_task\<close> of the state manager does nothing for a task that
  is not stored. For a stored task whose \<open>failure_count\<close> is a 64-bit integer below the
  largest one, it adds one to \<open>failure_count\<close>. While the new count is below 3 it stores
  the reason in \<open>failure_reason\<close> and publishes no event at all, and the task is in progress
  afterwards unless it was done (the move goes through the checked state machine, which has
  no move out of \<open>done\<close>). From a new count of 3 on it publishes one pending
  \<open>ESCALATE_TASK\<close> event for the agent \<open>manager\<close>, whose payload is the task and the new
  count. The \<open>REWORK_NEEDED\<close> event is published by \<open>CABAgent.reject_task\<close>, which sets the
  task in progress, leaves \<open>failure_count\<close> as it is and addresses the event, with the task
  and the reason, to \<open>developer\<close>.
\<close>

theorem reject_task_counts_and_escalates:
  "(get_task conn task_id = None \<longrightarrow>
      reject_task conn task_id reason rejecting_agent now event_id event_now = (None, conn))
   \<and> (get_task conn task_id = Some r
        \<and> - (2 ^ 63) \<le> t_failure_count r \<and> t_failure_count r < 2 ^ 63 - 1 \<longrightarrow>
        (\<exists>r'. get_task (snd (reject_task conn task_id reason rejecting_agent now event_id event_now))
                 task_id = Some r'
           \<and> t_failure_count r' = t_failure_count r + 1
           \<and> (t_failure_count r + 1 < 3 \<longrightarrow>
                 t_failure_reason r' = Some reason
                 \<and> t_status r' = (if t_status r = Done then Done else InProgress)))
        \<and> (t_failure_count r + 1 < 3 \<longrightarrow>
             fst (reject_task conn task_id reason rejecting_agent now event_id event_now) = None
             \<and> events (snd (reject_task conn task_id reason rejecting_agent now event_id event_now))
                 = events conn)
        \<and> (3 \<le> t_failure_count r + 1 \<and> event_id \<notin> e_id ` set (events conn) \<longrightarrow>
             fst (reject_task conn task_id reason rejecting_agent now event_id event_now) = None
             \<and> events (snd (reject_task conn task_id reason rejecting_agent now event_id event_now))
                 = events conn @
                     [\<lparr>e_id = event_id, e_agent_id = ''manager'', e_event_type = ''ESCALATE_TASK'',
                       e_payload = [(''task_id'', JStr task_id),
                                    (''failure_count'', JInt (t_failure_count r + 1))],
                       e_status = Pending, e_created_at = event_now, e_processed_at = None\<rparr>]))
   \<and> (get_task conn task_id = Some r \<and> event_id \<notin> e_id ` set (events conn) \<longrightarrow>
        fst (CABAgent_reject_task conn task_id reason now event_id event_now) = None
        \<and> (\<exists>r'. get_task (snd (CABAgent_reject_task conn task_id reason now event_id event_now))
                   task_id = Some r'
              \<and> t_status r' = InProgress \<and> t_failure_count r' = t_failure_count r)
        \<and> events (snd (CABAgent_reject_task conn task_id reason now event_id event_now)) =
             events conn @
               [\<lparr>e_id = event_id, e_agent_id = ''developer'', e_event_type = ''REWORK_NEEDED'',
                 e_payload = [(''task_id'', JStr task_id), (''reason'', JStr reason)],
                 e_status = Pending, e_created_at = event_now, e_processed_at = None\<rparr>])"
proof (rule conjI [OF _ conjI])
  show "get_task conn task_id = None \<longrightarrow>
      reject_task conn task_id reason rejecting_agent now event_id event_now = (None, conn)"
    by (rule impI) (rule reject_task_missing)
next
  let ?res = "reject_task conn task_id reason rejecting_agent now event_id event_now"
  let ?E = "\<lparr>e_id = event_id, e_agent_id = ''manager'', e_event_type = ''ESCALATE_TASK'',
                       e_payload = [(''task_id'', JStr task_id),
                                    (''failure_count'', JInt (t_failure_count r + 1))],
                       e_status = Pending, e_created_at = event_now, e_processed_at = None\<rparr>"
  show "get_task conn task_id = Some r
        \<and> - (2 ^ 63) \<le> t_failure_count r \<and> t_failure_count r < 2 ^ 63 - 1 \<longrightarrow>
        (\<exists>r'. get_task (snd ?res) task_id = Some r'
           \<and> t_failure_count r' = t_failure_count r + 1
           \<and> (t_failure_count r + 1 < 3 \<longrightarrow>
                 t_failure_reason r' = Some reason
                 \<and> t_status r' = (if t_status r = Done then Done else InProgress)))
        \<and> (t_failure_count r + 1 < 3 \<longrightarrow> fst ?res = None \<and> events (snd ?res) = events conn)
        \<and> (3 \<le> t_failure_count r + 1 \<and> event_id \<notin> e_id ` set (events conn) \<longrightarrow>
             fst ?res = None \<and> events (snd ?res) = events conn @ [?E])"
  proof (rule impI)
    assume h0: "get_task conn task_id = Some r
        \<and> - (2 ^ 63) \<le> t_failure_count r \<and> t_failure_count r < 2 ^ 63 - 1"
    from h0 have g: "get_task conn task_id = Some r" by (rule conjunct1)
    from h0 have bd: "t_failure_count r < 2 ^ 63 - 1" by (rule conjunct2 [THEN conjunct2])
    have n: "t_failure_count r + 1 = sqlite_add_one (t_failure_count r)"
      using sqlite_add_one_exact [OF bd] by simp
    have "t_failure_count r + 1 < 2 ^ 63" using bd by simp
    then have j: "json_number (t_failure_count r + 1) = JInt (t_failure_count r + 1)"
      by (rule json_number_int)
    from reject_task_existing [OF g n, of reason rejecting_agent now event_id event_now,
        unfolded j]
    obtain conn2 r2 where
      g2: "get_task conn2 task_id = Some r2" and e2: "events conn2 = events conn"
      and f: "t_failure_count r2 = t_failure_count r + 1" "t_failure_reason r2 = Some reason"
        "t_status r2 = (if t_status r = Done then Done else InProgress)"
      and res: "?res =
               (if t_failure_count r + 1 \<ge> 3
                then (case fst (publish_event conn2 ''manager'' ''ESCALATE_TASK''
                          [(''task_id'', JStr task_id),
                           (''failure_count'', JInt (t_failure_count r + 1))]
                          event_id event_now) of
                        Inl e \<Rightarrow> Some e | Inr _ \<Rightarrow> None,
                      snd (publish_event conn2 ''manager'' ''ESCALATE_TASK''
                          [(''task_id'', JStr task_id),
                           (''failure_count'', JInt (t_failure_count r + 1))]
                          event_id event_now))
                else (None, conn2))"
      by blast
    have gt: "get_task (snd ?res) task_id = Some r2"
      unfolding res using g2 by simp
    have p1: "\<exists>r'. get_task (snd ?res) task_id = Some r'
           \<and> t_failure_count r' = t_failure_count r + 1
           \<and> (t_failure_count r + 1 < 3 \<longrightarrow>
                 t_failure_reason r' = Some reason
                 \<and> t_status r' = (if t_status r = Done then Done else InProgress))"
      using gt f by blast
    have p2: "t_failure_count r + 1 < 3 \<longrightarrow> fst ?res = None \<and> events (snd ?res) = events conn"
      unfolding res using e2 by simp
    have p3: "3 \<le> t_failure_count r + 1 \<and> event_id \<notin> e_id ` set (events conn) \<longrightarrow>
             fst ?res = None \<and> events (snd ?res) = events conn @ [?E]"
    proof (rule impI)
      assume h: "3 \<le> t_failure_count r + 1 \<and> event_id \<notin> e_id ` set (events conn)"
      then have fr: "event_id \<notin> e_id ` set (events conn2)" using e2 by simp
      note p = publish_event_fresh [OF fr, of "''manager''" "''ESCALATE_TASK''"
          "[(''task_id'', JStr task_id), (''failure_count'', JInt (t_failure_count r + 1))]"
          event_now]
      from h have ge: "3 \<le> t_failure_count r + 1" by (rule conjunct1)
      show "fst ?res = None \<and> events (snd ?res) = events conn @ [?E]"
        unfolding res using ge p e2 by simp
    qed
    from p1 p2 p3 show "(\<exists>r'. get_task (snd ?res) task_id = Some r'
           \<and> t_failure_count r' = t_failure_count r + 1
           \<and> (t_failure_count r + 1 < 3 \<longrightarrow>
                 t_failure_reason r' = Some reason
                 \<and> t_status r' = (if t_status r = Done then Done else InProgress)))
        \<and> (t_failure_count r + 1 < 3 \<longrightarrow> fst ?res = None \<and> events (snd ?res) = events conn)
        \<and> (3 \<le> t_failure_count r + 1 \<and> event_id \<notin> e_id ` set (events conn) \<longrightarrow>
             fst ?res = None \<and> events (snd ?res) = events conn @ [?E])"
      by (intro conjI)
  qed
next
  show "get_task conn task_id = Some r \<and> event_id \<notin> e_id ` set (events conn) \<longrightarrow>
        fst (CABAgent_reject_task conn task_id reason now event_id event_now) = None
        \<and> (\<exists>r'. get_task (snd (CABAgent_reject_task conn task_id reason now event_id event_now))
                   task_id = Some r'
              \<and> t_status r' = InProgress \<and> t_failure_count r' = t_failure_count r)
        \<and> events (snd (CABAgent_reject_task conn task_id reason now event_id event_now)) =
             events conn @
               [\<lparr>e_id = event_id, e_agent_id = ''developer'', e_event_type = ''REWORK_NEEDED'',
                 e_payload = [(''task_id'', JStr task_id), (''reason'', JStr reason)],
                 e_status = Pending, e_created_at = event_now, e_processed_at = None\<rparr>]"
  proof (rule impI)
    assume h: "get_task conn task_id = Some r \<and> event_id \<notin> e_id ` set (events conn)"
    note c = CABAgent_reject_task_existing [OF h [THEN conjunct1] h [THEN conjunct2],
        of reason now event_now]
    from c(1) c(2) c(3) show "fst (CABAgent_reject_task conn task_id reason now event_id event_now) = None
        \<and> (\<exists>r'. get_task (snd (CABAgent_reject_task conn task_id reason now event_id event_now))
                   task_id = Some r'
              \<and> t_status r' = InProgress \<and> t_failure_count r' = t_failure_count r)
        \<and> events (snd (CABAgent_reject_task conn task_id reason now event_id event_now)) =
             events conn @
               [\<lparr>e_id = event_id, e_agent_id = ''developer'', e_event_type = ''REWORK_NEEDED'',
                 e_payload = [(''task_id'', JStr task_id), (''reason'', JStr reason)],
                 e_status = Pending, e_created_at = event_now, e_processed_at = None\<rparr>]"
      by (intro conjI)
  qed
qed

lemma example_get_task:
  "get_task (store_of_tasks [example_task ''T2'' st asg n]) ''T2'' = Some (example_task ''T2'' st asg n)"
  by (simp add: get_task_def store_of_tasks_def example_task_def)

lemma example_get_task_missing:
  "get_task (store_of_tasks [example_task ''T2'' st asg n]) ''T9'' = None"
  by (simp add: get_task_def store_of_tasks_def example_task_def)

lemma example_events_fresh:
  "''e1'' \<notin> e_id ` set (events (store_of_tasks ts))"
  by (simp add: store_of_tasks_def)

theorem reject_task_counts_and_escalates_witness:
  "reject_task (store_of_tasks [example_task ''T2'' InReview (Some ''dev-001'') 0]) ''T9''
       ''lint failed'' ''cab'' ''2026-01-02 00:00:00'' ''e1'' ''2026-01-02 00:00:01''
     = (None, store_of_tasks [example_task ''T2'' InReview (Some ''dev-001'') 0])
   \<and> map_option t_failure_count
         (get_task (snd (reject_task (store_of_tasks [example_task ''T2'' InReview (Some ''dev-001'') 0])
            ''T2'' ''lint failed'' ''cab'' ''2026-01-02 00:00:00'' ''e1'' ''2026-01-02 00:00:01''))
          ''T2'') = Some 1
   \<and> map_option t_status
         (get_task (snd (reject_task (store_of_tasks [example_task ''T2'' InReview (Some ''dev-001'') 0])
            ''T2'' ''lint failed'' ''cab'' ''2026-01-02 00:00:00'' ''e1'' ''2026-01-02 00:00:01''))
          ''T2'') = Some InProgress
   \<and> events (snd (reject_task (store_of_tasks [example_task ''T2'' InReview (Some ''dev-001'') 0])
            ''T2'' ''lint failed'' ''cab'' ''2026-01-02 00:00:00'' ''e1'' ''2026-01-02 00:00:01''))
       = []
   \<and> events (snd (reject_task (store_of_tasks [example_task ''T2'' InReview (Some ''dev-001'') 2])
            ''T2'' ''lint failed'' ''cab'' ''2026-01-02 00:00:00'' ''e1'' ''2026-01-02 00:00:01''))
       = [\<lparr>e_id = ''e1'', e_agent_id = ''manager'', e_event_type = ''ESCALATE_TASK'',
           e_payload = [(''task_id'', JStr ''T2''), (''failure_count'', JInt 3)],
           e_status = Pending, e_created_at = ''2026-01-02 00:00:01'', e_processed_at = None\<rparr>]
   \<and> events (snd (CABAgent_reject_task
            (store_of_tasks [example_task ''T2'' InReview (Some ''dev-001'') 0])
            ''T2'' ''lint failed'' ''2026-01-02 00:00:00'' ''e1'' ''2026-01-02 00:00:01''))
       = [\<lparr>e_id = ''e1'', e_agent_id = ''developer'', e_event_type = ''REWORK_NEEDED'',
           e_payload = [(''task_id'', JStr ''T2''), (''reason'', JStr ''lint failed'')],
           e_status = Pending, e_created_at = ''2026-01-02 00:00:01'', e_processed_at = None\<rparr>]"
proof -
  let ?r0 = "example_task ''T2'' InReview (Some ''dev-001'') 0"
  let ?r2 = "example_task ''T2'' InReview (Some ''dev-001'') 2"
  let ?S0 = "store_of_tasks [?r0]"
  let ?S2 = "store_of_tasks [?r2]"
  note m = reject_task_counts_and_escalates [where conn = ?S0 and task_id = "''T9''"
      and reason = "''lint failed''" and rejecting_agent = "''cab''"
      and now = "''2026-01-02 00:00:00''" and event_id = "''e1''"
      and event_now = "''2026-01-02 00:00:01''" and r = ?r0]
  note a = reject_task_counts_and_escalates [where conn = ?S0 and task_id = "''T2''"
      and reason = "''lint failed''" and rejecting_agent = "''cab''"
      and now = "''2026-01-02 00:00:00''" and event_id = "''e1''"
      and event_now = "''2026-01-02 00:00:01''" and r = ?r0]
  note b = reject_task_counts_and_escalates [where conn = ?S2 and task_id = "''T2''"
      and reason = "''lint failed''" and rejecting_agent = "''cab''"
      and now = "''2026-01-02 00:00:00''" and event_id = "''e1''"
      and event_now = "''2026-01-02 00:00:01''" and r = ?r2]
  have w1: "reject_task ?S0 ''T9'' ''lint failed'' ''cab'' ''2026-01-02 00:00:00'' ''e1''
      ''2026-01-02 00:00:01'' = (None, ?S0)"
    by (rule m [THEN conjunct1, THEN mp, OF example_get_task_missing])
  have l0: "- (2 ^ 63) \<le> t_failure_count ?r0" by (simp add: example_task_def)
  have u0: "t_failure_count ?r0 < 2 ^ 63 - 1" by (simp add: example_task_def)
  have b0: "get_task ?S0 ''T2'' = Some ?r0
      \<and> - (2 ^ 63) \<le> t_failure_count ?r0 \<and> t_failure_count ?r0 < 2 ^ 63 - 1"
    using example_get_task [of InReview "Some ''dev-001''" 0] l0 u0 by (intro conjI)
  have l2: "- (2 ^ 63) \<le> t_failure_count ?r2" by (simp add: example_task_def)
  have u2: "t_failure_count ?r2 < 2 ^ 63 - 1" by (simp add: example_task_def)
  have b2: "get_task ?S2 ''T2'' = Some ?r2
      \<and> - (2 ^ 63) \<le> t_failure_count ?r2 \<and> t_failure_count ?r2 < 2 ^ 63 - 1"
    using example_get_task [of InReview "Some ''dev-001''" 2] l2 u2 by (intro conjI)
  note a2 = a [THEN conjunct2, THEN conjunct1, THEN mp, OF b0]
  have c0: "t_failure_count ?r0 + 1 < 3" by (simp add: example_task_def)
  have s0: "t_status ?r0 \<noteq> Done" by (simp add: example_task_def)
  have n0: "t_failure_count ?r0 + 1 = 1" by (simp add: example_task_def)
  from a2 [THEN conjunct1] obtain r' where
    r': "get_task (snd (reject_task ?S0 ''T2'' ''lint failed'' ''cab'' ''2026-01-02 00:00:00''
        ''e1'' ''2026-01-02 00:00:01'')) ''T2'' = Some r'"
      "t_failure_count r' = t_failure_count ?r0 + 1"
      "t_failure_count ?r0 + 1 < 3 \<longrightarrow> t_failure_reason r' = Some ''lint failed''
         \<and> t_status r' = (if t_status ?r0 = Done then Done else InProgress)"
    by blast
  have w2: "map_option t_failure_count
         (get_task (snd (reject_task ?S0 ''T2'' ''lint failed'' ''cab'' ''2026-01-02 00:00:00''
            ''e1'' ''2026-01-02 00:00:01'')) ''T2'') = Some 1"
    unfolding r'(1) using r'(2) n0 by simp
  have w3: "map_option t_status
         (get_task (snd (reject_task ?S0 ''T2'' ''lint failed'' ''cab'' ''2026-01-02 00:00:00''
            ''e1'' ''2026-01-02 00:00:01'')) ''T2'') = Some InProgress"
    unfolding r'(1) using r'(3) c0 s0 by simp
  have ev0: "events ?S0 = []" by (simp add: store_of_tasks_def)
  have ev2: "events ?S2 = []" by (simp add: store_of_tasks_def)
  have w4: "events (snd (reject_task ?S0 ''T2'' ''lint failed'' ''cab'' ''2026-01-02 00:00:00''
            ''e1'' ''2026-01-02 00:00:01'')) = []"
    using a2 [THEN conjunct2, THEN conjunct1, THEN mp, OF c0, THEN conjunct2] ev0 by simp
  have c2: "3 \<le> t_failure_count ?r2 + 1 \<and> ''e1'' \<notin> e_id ` set (events ?S2)"
    using example_events_fresh [of "[?r2]"] by (simp add: example_task_def)
  have n2: "t_failure_count ?r2 + 1 = 3" by (simp add: example_task_def)
  have w5: "events (snd (reject_task ?S2 ''T2'' ''lint failed'' ''cab'' ''2026-01-02 00:00:00''
            ''e1'' ''2026-01-02 00:00:01''))
       = [\<lparr>e_id = ''e1'', e_agent_id = ''manager'', e_event_type = ''ESCALATE_TASK'',
           e_payload = [(''task_id'', JStr ''T2''), (''failure_count'', JInt 3)],
           e_status = Pending, e_created_at = ''2026-01-02 00:00:01'', e_processed_at = None\<rparr>]"
    using b [THEN conjunct2, THEN conjunct1, THEN mp, OF b2,
        THEN conjunct2, THEN conjunct2, THEN mp, OF c2, THEN conjunct2]
    unfolding n2 ev2 by simp
  have h: "get_task ?S0 ''T2'' = Some ?r0 \<and> ''e1'' \<notin> e_id ` set (events ?S0)"
    using example_get_task [of InReview "Some ''dev-001''" 0] example_events_fresh [of "[?r0]"]
    by (intro conjI)
  have w6: "events (snd (CABAgent_reject_task ?S0 ''T2'' ''lint failed'' ''2026-01-02 00:00:00''
        ''e1'' ''2026-01-02 00:00:01''))
       = [\<lparr>e_id = ''e1'', e_agent_id = ''developer'', e_event_type = ''REWORK_NEEDED'',
           e_payload = [(''task_id'', JStr ''T2''), (''reason'', JStr ''lint failed'')],
           e_status = Pending, e_created_at = ''2026-01-02 00:00:01'', e_processed_at = None\<rparr>]"
    using a [THEN conjunct2, THEN conjunct2, THEN mp, OF h, THEN conjunct2, THEN conjunct2]
    unfolding ev0 by simp
  from w1 w2 w3 w4 w5 w6 show ?thesis by (intro conjI)
qed

text \<open>
  C1 as stated fails. The third rejection of task \<open>T2\<close>, in review and assigned to
  \<open>dev-001\<close>, leaves the task in progress and still assigned to \<open>dev-001\<close>, with the reason
  of the rejection as \<open>failure_reason\<close>; the only event published is \<open>ESCALATE_TASK\<close>, so
  there is no \<open>REWORK_NEEDED\<close>. And a task that is done stays done when it is rejected.
\<close>

theorem reject_task_third_rejection_counterexample:
  "reject_task (store_of_tasks [example_task ''T2'' InReview (Some ''dev-001'') 2])
       ''T2'' ''lint failed'' ''cab'' ''2026-01-02 00:00:00'' ''e1'' ''2026-01-02 00:00:01''
     = (None,
        (store_of_tasks
           [(example_task ''T2'' InProgress (Some ''dev-001'') 3)
              \<lparr>t_failure_reason := Some ''lint failed'',
               t_started_at := Some ''2026-01-02 00:00:00''\<rparr>])
        \<lparr>events :=
           [\<lparr>e_id = ''e1'', e_agent_id = ''manager'', e_event_type = ''ESCALATE_TASK'',
             e_payload = [(''task_id'', JStr ''T2''), (''failure_count'', JInt 3)],
             e_status = Pending, e_created_at = ''2026-01-02 00:00:01'',
             e_processed_at = None\<rparr>]\<rparr>)
   \<and> reject_task (store_of_tasks [example_task ''T3'' Done (Some ''dev-001'') 0])
       ''T3'' ''lint failed'' ''cab'' ''2026-01-02 00:00:00'' ''e1'' ''2026-01-02 00:00:01''
     = (None,
        store_of_tasks
           [(example_task ''T3'' Done (Some ''dev-001'') 1)
              \<lparr>t_failure_reason := Some ''lint failed''\<rparr>])"
  by (simp add: reject_task_def increment_task_failure_count_def transition_task_status_def
      update_task_status_def update_tasks_where_id_def timestamp_field_def publish_event_def
      get_task_def validate_task_transition_def VALID_TASK_TRANSITIONS_def
      sqlite_add_one_def json_number_def store_of_tasks_def example_task_def)
section \<open>Atomic claim\<close>

lemma claim_fst: "fst (claim_task_atomic conn task_id agent now) \<longleftrightarrow>
      (\<exists>t. get_task conn task_id = Some t \<and> t_status t = Todo \<and> t_assignee t = None)"
  by (cases "get_task conn task_id") (simp_all add: claim_task_atomic_def)

lemma claim_fail_unchanged:
  "\<not> fst (claim_task_atomic conn task_id agent now) \<Longrightarrow>
   snd (claim_task_atomic conn task_id agent now) = conn"
  by (cases "get_task conn task_id") (auto simp add: claim_task_atomic_def split: if_splits)

lemma claim_success_row:
  assumes "fst (claim_task_atomic conn task_id agent now)"
  shows "\<exists>t. get_task conn task_id = Some t \<and>
             get_task (snd (claim_task_atomic conn task_id agent now)) task_id =
               Some (t\<lparr>t_status := InProgress, t_assignee := Some agent, t_started_at := Some now\<rparr>)"
proof -
  from assms obtain t where g: "get_task conn task_id = Some t"
    and c: "t_status t = Todo" "t_assignee t = None"
    unfolding claim_fst by blast
  let ?upd = "\<lambda>t. t\<lparr>t_status := InProgress, t_assignee := Some agent, t_started_at := Some now\<rparr>"
  have f: "find (\<lambda>t. t_id t = task_id) (tasks conn) = Some t"
    using g by (simp add: get_task_def)
  have i: "t_id (?upd t) = task_id" using find_Some_id [OF f] by simp
  have "get_task (snd (claim_task_atomic conn task_id agent now)) task_id = Some (?upd t)"
    using find_map_update_id [of task_id "tasks conn" t ?upd, OF f i] g c
    by (simp add: claim_task_atomic_def get_task_def update_tasks_where_id_def)
  with g show ?thesis by blast
qed

lemma claim_twice:
  assumes "fst (claim_task_atomic conn task_id a1 now1)"
  shows "\<not> fst (claim_task_atomic (snd (claim_task_atomic conn task_id a1 now1)) task_id a2 now2)"
proof -
  from claim_success_row [OF assms] obtain t where
    "get_task (snd (claim_task_atomic conn task_id a1 now1)) task_id =
       Some (t\<lparr>t_status := InProgress, t_assignee := Some a1, t_started_at := Some now1\<rparr>)"
    by blast
  then show ?thesis by (simp add: claim_fst)
qed

text \<open>
  C2. \<open>claim_task_atomic\<close> returns true exactly when the task exists with status todo
  and no assignee; it then sets status, assignee and \<open>started_at\<close> of that task and
  nothing else of it; in every other case it returns false and the store is unchanged.
  A claim on any store in which the task is not in todo fails, so of two claims in a row
  on a claimable task the first wins, the second returns false and changes nothing, and
  the task is in progress and assigned to the winner.
\<close>

theorem claim_task_atomic_exactly_one:
  "(fst (claim_task_atomic conn task_id agent now) \<longleftrightarrow>
      (\<exists>t. get_task conn task_id = Some t \<and> t_status t = Todo \<and> t_assignee t = None))
   \<and> (fst (claim_task_atomic conn task_id agent now) \<longrightarrow>
        (\<exists>t. get_task conn task_id = Some t \<and>
             get_task (snd (claim_task_atomic conn task_id agent now)) task_id =
               Some (t\<lparr>t_status := InProgress, t_assignee := Some agent,
                       t_started_at := Some now\<rparr>)))
   \<and> (\<not> fst (claim_task_atomic conn task_id agent now) \<longrightarrow>
        snd (claim_task_atomic conn task_id agent now) = conn)
   \<and> (\<forall>conn'. (\<forall>t. get_task conn' task_id = Some t \<longrightarrow> t_status t \<noteq> Todo) \<longrightarrow>
          \<not> fst (claim_task_atomic conn' task_id agent now))
   \<and> ((\<exists>t. get_task conn task_id = Some t \<and> t_status t = Todo \<and> t_assignee t = None) \<longrightarrow>
        fst (claim_task_atomic conn task_id a1 now1)
        \<and> \<not> fst (claim_task_atomic (snd (claim_task_atomic conn task_id a1 now1)) task_id a2 now2)
        \<and> (\<exists>t'. get_task (snd (claim_task_atomic (snd (claim_task_atomic conn task_id a1 now1))
                                 task_id a2 now2)) task_id = Some t'
                 \<and> t_assignee t' = Some a1 \<and> t_status t' = InProgress))"
proof (intro conjI)
  show "fst (claim_task_atomic conn task_id agent now) \<longleftrightarrow>
      (\<exists>t. get_task conn task_id = Some t \<and> t_status t = Todo \<and> t_assignee t = None)"
    by (rule claim_fst)
  show "fst (claim_task_atomic conn task_id agent now) \<longrightarrow>
        (\<exists>t. get_task conn task_id = Some t \<and>
             get_task (snd (claim_task_atomic conn task_id agent now)) task_id =
               Some (t\<lparr>t_status := InProgress, t_assignee := Some agent,
                       t_started_at := Some now\<rparr>))"
    using claim_success_row by blast
  show "\<not> fst (claim_task_atomic conn task_id agent now) \<longrightarrow>
        snd (claim_task_atomic conn task_id agent now) = conn"
    using claim_fail_unchanged by blast
  show "\<forall>conn'. (\<forall>t. get_task conn' task_id = Some t \<longrightarrow> t_status t \<noteq> Todo) \<longrightarrow>
          \<not> fst (claim_task_atomic conn' task_id agent now)"
    unfolding claim_fst by blast
  show "(\<exists>t. get_task conn task_id = Some t \<and> t_status t = Todo \<and> t_assignee t = None) \<longrightarrow>
        fst (claim_task_atomic conn task_id a1 now1)
        \<and> \<not> fst (claim_task_atomic (snd (claim_task_atomic conn task_id a1 now1)) task_id a2 now2)
        \<and> (\<exists>t'. get_task (snd (claim_task_atomic (snd (claim_task_atomic conn task_id a1 now1))
                                 task_id a2 now2)) task_id = Some t'
                 \<and> t_assignee t' = Some a1 \<and> t_status t' = InProgress)"
  proof
    assume h: "\<exists>t. get_task conn task_id = Some t \<and> t_status t = Todo \<and> t_assignee t = None"
    then have w: "fst (claim_task_atomic conn task_id a1 now1)" by (simp add: claim_fst)
    have l: "\<not> fst (claim_task_atomic (snd (claim_task_atomic conn task_id a1 now1)) task_id a2 now2)"
      by (rule claim_twice [OF w])
    from claim_success_row [OF w] obtain t where
      r: "get_task (snd (claim_task_atomic conn task_id a1 now1)) task_id =
        Some (t\<lparr>t_status := InProgress, t_assignee := Some a1, t_started_at := Some now1\<rparr>)"
      by blast
    have "snd (claim_task_atomic (snd (claim_task_atomic conn task_id a1 now1)) task_id a2 now2)
           = snd (claim_task_atomic conn task_id a1 now1)"
      by (rule claim_fail_unchanged [OF l])
    with r w l show "fst (claim_task_atomic conn task_id a1 now1)
        \<and> \<not> fst (claim_task_atomic (snd (claim_task_atomic conn task_id a1 now1)) task_id a2 now2)
        \<and> (\<exists>t'. get_task (snd (claim_task_atomic (snd (claim_task_atomic conn task_id a1 now1))
                                 task_id a2 now2)) task_id = Some t'
                 \<and> t_assignee t' = Some a1 \<and> t_status t' = InProgress)"
      by simp
  qed
qed

theorem claim_task_atomic_exactly_one_witness:
  "fst (claim_task_atomic (store_of_tasks [example_task ''T1'' Todo None 0]) ''T1'' ''dev-001''
          ''2026-01-01 00:00:05'')
   \<and> \<not> fst (claim_task_atomic
            (snd (claim_task_atomic (store_of_tasks [example_task ''T1'' Todo None 0]) ''T1''
                    ''dev-001'' ''2026-01-01 00:00:05''))
            ''T1'' ''dev-002'' ''2026-01-01 00:00:05'')
   \<and> map t_assignee (tasks (snd (claim_task_atomic
            (snd (claim_task_atomic (store_of_tasks [example_task ''T1'' Todo None 0]) ''T1''
                    ''dev-001'' ''2026-01-01 00:00:05''))
            ''T1'' ''dev-002'' ''2026-01-01 00:00:05''))) = [Some ''dev-001'']
   \<and> \<not> fst (claim_task_atomic (store_of_tasks [example_task ''T1'' InReview (Some ''dev-001'') 0])
            ''T1'' ''dev-002'' ''2026-01-01 00:00:05'')"
proof -
  have h: "\<exists>t. get_task (store_of_tasks [example_task ''T1'' Todo None 0]) ''T1'' = Some t
               \<and> t_status t = Todo \<and> t_assignee t = None"
    by (simp add: get_task_def store_of_tasks_def example_task_def)
  have n: "\<not> (\<exists>t. get_task (store_of_tasks [example_task ''T1'' InReview (Some ''dev-001'') 0]) ''T1'' = Some t
               \<and> t_status t = Todo \<and> t_assignee t = None)"
    by (simp add: get_task_def store_of_tasks_def example_task_def)
  have a: "map t_assignee (tasks (snd (claim_task_atomic
            (snd (claim_task_atomic (store_of_tasks [example_task ''T1'' Todo None 0]) ''T1''
                    ''dev-001'' ''2026-01-01 00:00:05''))
            ''T1'' ''dev-002'' ''2026-01-01 00:00:05''))) = [Some ''dev-001'']"
    by (simp add: claim_task_atomic_def get_task_def update_tasks_where_id_def
        store_of_tasks_def example_task_def)
  show ?thesis
    using h n a
      claim_task_atomic_exactly_one [of "store_of_tasks [example_task ''T1'' Todo None 0]" "''T1''"
        "''dev-001''" "''2026-01-01 00:00:05''" "''dev-001''" "''2026-01-01 00:00:05''"
        "''dev-002''" "''2026-01-01 00:00:05''"]
      claim_task_atomic_exactly_one [of
        "store_of_tasks [example_task ''T1'' InReview (Some ''dev-001'') 0]" "''T1''"
        "''dev-002''" "''2026-01-01 00:00:05''"]
    by blast
qed

section \<open>The task state machine\<close>

text \<open>
  C3. A requested transition is accepted exactly for the nine legal pairs of statuses:
  \<open>validate_task_transition\<close> holds for those pairs and no other,
  \<open>transition_task_status\<close> returns true exactly when the task exists and the pair
  (current status, requested status) is legal, a refused request leaves the store as
  it was, an accepted one puts the task in the requested status, and nothing leaves
  \<open>Done\<close>.
\<close>

theorem task_transition_legal_pairs:
  "(validate_task_transition from_status to_status \<longleftrightarrow>
      (from_status, to_status) \<in>
        {(Todo, InProgress), (InProgress, InReview), (InReview, InTests),
         (InReview, InProgress), (InTests, InDocs), (InTests, InProgress),
         (InDocs, Done), (InDocs, InProgress), (InProgress, Todo)})
   \<and> (fst (transition_task_status conn task_id to_status now) \<longleftrightarrow>
        (\<exists>t. get_task conn task_id = Some t \<and>
          (t_status t, to_status) \<in>
            {(Todo, InProgress), (InProgress, InReview), (InReview, InTests),
             (InReview, InProgress), (InTests, InDocs), (InTests, InProgress),
             (InDocs, Done), (InDocs, InProgress), (InProgress, Todo)}))
   \<and> (\<not> fst (transition_task_status conn task_id to_status now) \<longrightarrow>
        snd (transition_task_status conn task_id to_status now) = conn)
   \<and> (fst (transition_task_status conn task_id to_status now) \<longrightarrow>
        (\<exists>t'. get_task (snd (transition_task_status conn task_id to_status now)) task_id = Some t'
              \<and> t_status t' = to_status))
   \<and> \<not> validate_task_transition Done to_status"
proof (intro conjI)
  show "validate_task_transition from_status to_status \<longleftrightarrow>
      (from_status, to_status) \<in>
        {(Todo, InProgress), (InProgress, InReview), (InReview, InTests),
         (InReview, InProgress), (InTests, InDocs), (InTests, InProgress),
         (InDocs, Done), (InDocs, InProgress), (InProgress, Todo)}"
    by (rule validate_task_transition_cases)
next
  show "fst (transition_task_status conn task_id to_status now) \<longleftrightarrow>
        (\<exists>t. get_task conn task_id = Some t \<and>
          (t_status t, to_status) \<in>
            {(Todo, InProgress), (InProgress, InReview), (InReview, InTests),
             (InReview, InProgress), (InTests, InDocs), (InTests, InProgress),
             (InDocs, Done), (InDocs, InProgress), (InProgress, Todo)})"
    unfolding validate_task_transition_cases [symmetric]
    by (cases "get_task conn task_id") (simp_all add: transition_task_status_def)
next
  show "\<not> fst (transition_task_status conn task_id to_status now) \<longrightarrow>
        snd (transition_task_status conn task_id to_status now) = conn"
    by (cases "get_task conn task_id") (simp_all add: transition_task_status_def)
next
  show "fst (transition_task_status conn task_id to_status now) \<longrightarrow>
        (\<exists>t'. get_task (snd (transition_task_status conn task_id to_status now)) task_id = Some t'
              \<and> t_status t' = to_status)"
  proof (cases "get_task conn task_id")
    case None
    then show ?thesis by (simp add: transition_task_status_def)
  next
    case (Some r)
    then show ?thesis
      using get_task_update_task_status [OF Some, of to_status now]
      by (simp add: transition_task_status_def)
  qed
next
  show "\<not> validate_task_transition Done to_status"
    by (simp add: validate_task_transition_cases)
qed

theorem task_transition_legal_pairs_witness:
  "fst (transition_task_status (store_of_tasks [example_task ''T1'' InReview (Some ''dev-001'') 0])
          ''T1'' InTests ''2026-01-01 00:10:00'')
   \<and> (\<exists>t'. get_task (snd (transition_task_status
                 (store_of_tasks [example_task ''T1'' InReview (Some ''dev-001'') 0])
                 ''T1'' InTests ''2026-01-01 00:10:00'')) ''T1'' = Some t' \<and> t_status t' = InTests)
   \<and> \<not> fst (transition_task_status (store_of_tasks [example_task ''T1'' Done (Some ''dev-001'') 0])
          ''T1'' InProgress ''2026-01-01 00:10:00'')
   \<and> snd (transition_task_status (store_of_tasks [example_task ''T1'' Done (Some ''dev-001'') 0])
          ''T1'' InProgress ''2026-01-01 00:10:00'')
       = store_of_tasks [example_task ''T1'' Done (Some ''dev-001'') 0]"
proof -
  have a: "\<exists>t. get_task (store_of_tasks [example_task ''T1'' InReview (Some ''dev-001'') 0]) ''T1''
                 = Some t \<and>
            (t_status t, InTests) \<in>
              {(Todo, InProgress), (InProgress, InReview), (InReview, InTests),
               (InReview, InProgress), (InTests, InDocs), (InTests, InProgress),
               (InDocs, Done), (InDocs, InProgress), (InProgress, Todo)}"
    by (simp add: get_task_def store_of_tasks_def example_task_def)
  have b: "\<not> (\<exists>t. get_task (store_of_tasks [example_task ''T1'' Done (Some ''dev-001'') 0]) ''T1''
                 = Some t \<and>
            (t_status t, InProgress) \<in>
              {(Todo, InProgress), (InProgress, InReview), (InReview, InTests),
               (InReview, InProgress), (InTests, InDocs), (InTests, InProgress),
               (InDocs, Done), (InDocs, InProgress), (InProgress, Todo)})"
    by (simp add: get_task_def store_of_tasks_def example_task_def)
  show ?thesis
    using a b
      task_transition_legal_pairs [of InReview InTests
        "store_of_tasks [example_task ''T1'' InReview (Some ''dev-001'') 0]" "''T1''"
        "''2026-01-01 00:10:00''"]
      task_transition_legal_pairs [of Done InProgress
        "store_of_tasks [example_task ''T1'' Done (Some ''dev-001'') 0]" "''T1''"
        "''2026-01-01 00:10:00''"]
    by blast
qed
section \<open>Consuming events\<close>





















section \<open>File overlap\<close>

lemma overlapping_empty_iff:
  "filter (\<lambda>f. f \<in> set ys) (remdups xs) = [] \<longleftrightarrow> set xs \<inter> set ys = {}"
  by (auto simp add: filter_empty_conv)

lemma overlapping_set:
  "set (filter (\<lambda>f. f \<in> set ys) (remdups xs)) = set xs \<inter> set ys"
  by auto

lemma check_file_overlap_loop_Nil_iff:
  "check_file_overlap_loop files cs = [] \<longleftrightarrow>
     (\<forall>c \<in> set cs. c_status c \<noteq> ConvDone \<longrightarrow> set files \<inter> set (c_files c) = {})"
proof (induction cs)
  case Nil
  show ?case by simp
next
  case (Cons c cs)
  show ?case
  proof (cases "c_status c = ConvDone")
    case True
    with Cons.IH show ?thesis by simp
  next
    case False
    show ?thesis
    proof (cases "set files \<inter> set (c_files c) = {}")
      case True
      then have "filter (\<lambda>f. f \<in> set (c_files c)) (remdups files) = []"
        by (simp only: overlapping_empty_iff)
      with False True Cons.IH show ?thesis by (simp add: Let_def)
    next
      case ne: False
      then have "filter (\<lambda>f. f \<in> set (c_files c)) (remdups files) \<noteq> []"
        by (simp only: overlapping_empty_iff not_False_eq_True)
      with False ne show ?thesis by (simp add: Let_def)
    qed
  qed
qed

lemma check_file_overlap_loop_member:
  "cf \<in> set (check_file_overlap_loop files cs) \<Longrightarrow>
     \<exists>c \<in> set cs. c_status c \<noteq> ConvDone \<and> cf_convoy_id cf = c_id c
        \<and> set (cf_overlapping_files cf) = set files \<inter> set (c_files c)
        \<and> cf_overlapping_files cf \<noteq> []"
proof (induction cs)
  case Nil
  then show ?case by simp
next
  case (Cons c cs)
  let ?ov = "filter (\<lambda>f. f \<in> set (c_files c)) (remdups files)"
  show ?case
  proof (cases "c_status c \<noteq> ConvDone \<and> ?ov \<noteq> []")
    case False
    then have "check_file_overlap_loop files (c # cs) = check_file_overlap_loop files cs"
      by (auto simp add: Let_def)
    with Cons.prems have "cf \<in> set (check_file_overlap_loop files cs)" by simp
    from Cons.IH [OF this] show ?thesis by auto
  next
    case True
    then have e: "check_file_overlap_loop files (c # cs) =
        \<lparr>cf_convoy_id = c_id c, cf_convoy_status = c_status c, cf_overlapping_files = ?ov\<rparr>
          # check_file_overlap_loop files cs"
      by (simp add: Let_def)
    from Cons.prems [unfolded e]
    have "cf = \<lparr>cf_convoy_id = c_id c, cf_convoy_status = c_status c, cf_overlapping_files = ?ov\<rparr>
        \<or> cf \<in> set (check_file_overlap_loop files cs)" by simp
    then show ?thesis
    proof
      assume c1: "cf = \<lparr>cf_convoy_id = c_id c, cf_convoy_status = c_status c,
        cf_overlapping_files = ?ov\<rparr>"
      have "c_status c \<noteq> ConvDone \<and> cf_convoy_id cf = c_id c
        \<and> set (cf_overlapping_files cf) = set files \<inter> set (c_files c)
        \<and> cf_overlapping_files cf \<noteq> []"
        unfolding c1 using True overlapping_set [of "c_files c" files] by simp
      then show ?thesis by (intro bexI [of _ c]) simp_all
    next
      assume "cf \<in> set (check_file_overlap_loop files cs)"
      from Cons.IH [OF this] show ?thesis by auto
    qed
  qed
qed

lemma list_convoys_by_feature_set_None:
  "set (list_convoys_by_feature conn f None) = {c \<in> set (convoys conn). c_feature_id c = f}"
  by (auto simp add: list_convoys_by_feature_def)

lemma validate_no_file_conflicts_Inr_iff:
  "validate_no_file_conflicts conn f files = Inr () \<longleftrightarrow>
     (\<forall>c \<in> set (convoys conn). c_feature_id c = f \<and> c_status c \<noteq> ConvDone \<longrightarrow>
        set files \<inter> set (c_files c) = {})"
proof -
  have "validate_no_file_conflicts conn f files = Inr () \<longleftrightarrow> check_file_overlap conn f files = []"
    by (simp add: validate_no_file_conflicts_def Let_def)
  also have "\<dots> \<longleftrightarrow> (\<forall>c \<in> set (list_convoys_by_feature conn f None).
      c_status c \<noteq> ConvDone \<longrightarrow> set files \<inter> set (c_files c) = {})"
    unfolding check_file_overlap_def by (rule check_file_overlap_loop_Nil_iff)
  also have "\<dots> \<longleftrightarrow> (\<forall>c \<in> set (convoys conn). c_feature_id c = f \<and> c_status c \<noteq> ConvDone \<longrightarrow>
        set files \<inter> set (c_files c) = {})"
    unfolding list_convoys_by_feature_set_None by blast
  finally show ?thesis .
qed

lemma validate_no_file_conflicts_cases:
  "validate_no_file_conflicts conn f files = Inr () \<or>
   (\<exists>msg. validate_no_file_conflicts conn f files = Inl (ValueError msg))"
  by (simp add: validate_no_file_conflicts_def Let_def)

lemma check_file_overlap_member:
  assumes "cf \<in> set (check_file_overlap conn f files)"
  shows "\<exists>c \<in> set (convoys conn). c_feature_id c = f \<and> c_status c \<noteq> ConvDone
        \<and> cf_convoy_id cf = c_id c
        \<and> set (cf_overlapping_files cf) = set files \<inter> set (c_files c)
        \<and> cf_overlapping_files cf \<noteq> []"
proof -
  from check_file_overlap_loop_member [OF assms [unfolded check_file_overlap_def]]
  obtain c where c: "c \<in> set (list_convoys_by_feature conn f None)"
    "c_status c \<noteq> ConvDone \<and> cf_convoy_id cf = c_id c
        \<and> set (cf_overlapping_files cf) = set files \<inter> set (c_files c)
        \<and> cf_overlapping_files cf \<noteq> []" by blast
  from c(1) have "c \<in> set (convoys conn)" "c_feature_id c = f"
    by (simp_all add: list_convoys_by_feature_set_None)
  with c(2) show ?thesis by blast
qed

lemma check_file_overlap_loop_complete:
  "c \<in> set cs \<Longrightarrow> c_status c \<noteq> ConvDone \<Longrightarrow> set files \<inter> set (c_files c) \<noteq> {} \<Longrightarrow>
     \<exists>cf \<in> set (check_file_overlap_loop files cs). cf_convoy_id cf = c_id c
        \<and> set (cf_overlapping_files cf) = set files \<inter> set (c_files c)"
proof (induction cs)
  case Nil
  then show ?case by simp
next
  case (Cons a cs)
  let ?ov = "filter (\<lambda>f. f \<in> set (c_files a)) (remdups files)"
  from Cons.prems(1) have "c = a \<or> c \<in> set cs" by auto
  then show ?case
  proof
    assume ca: "c = a"
    from Cons.prems(3) have ne: "?ov \<noteq> []"
      unfolding ca by (simp only: overlapping_empty_iff not_False_eq_True)
    have e: "check_file_overlap_loop files (a # cs) =
        \<lparr>cf_convoy_id = c_id a, cf_convoy_status = c_status a, cf_overlapping_files = ?ov\<rparr>
          # check_file_overlap_loop files cs"
      using Cons.prems(2) ne unfolding ca by (simp add: Let_def)
    let ?cf = "\<lparr>cf_convoy_id = c_id a, cf_convoy_status = c_status a,
        cf_overlapping_files = ?ov\<rparr>"
    have m: "?cf \<in> set (check_file_overlap_loop files (a # cs))" unfolding e by simp
    have "cf_convoy_id ?cf = c_id c \<and> set (cf_overlapping_files ?cf) = set files \<inter> set (c_files c)"
      unfolding ca using overlapping_set [of "c_files a" files] by simp
    with m show ?thesis by (rule bexI [rotated])
  next
    assume "c \<in> set cs"
    from Cons.IH [OF this Cons.prems(2,3)] obtain cf where
      cf: "cf \<in> set (check_file_overlap_loop files cs)"
        "cf_convoy_id cf = c_id c \<and> set (cf_overlapping_files cf) = set files \<inter> set (c_files c)"
      by blast
    have "set (check_file_overlap_loop files cs) \<subseteq> set (check_file_overlap_loop files (a # cs))"
      by (auto simp add: Let_def)
    with cf(1) have "cf \<in> set (check_file_overlap_loop files (a # cs))" by (rule rev_subsetD)
    with cf(2) show ?thesis by (rule bexI)
  qed
qed

lemma check_file_overlap_complete:
  assumes "c \<in> set (convoys conn)" "c_feature_id c = f" "c_status c \<noteq> ConvDone"
    "set files \<inter> set (c_files c) \<noteq> {}"
  shows "\<exists>cf \<in> set (check_file_overlap conn f files). cf_convoy_id cf = c_id c
        \<and> set (cf_overlapping_files cf) = set files \<inter> set (c_files c)"
proof -
  from assms(1,2) have "c \<in> set (list_convoys_by_feature conn f None)"
    by (simp add: list_convoys_by_feature_set_None)
  from check_file_overlap_loop_complete [OF this assms(3,4)] show ?thesis
    unfolding check_file_overlap_def .
qed

lemma validate_no_file_conflicts_message:
  "check_file_overlap conn f files \<noteq> [] \<Longrightarrow>
     validate_no_file_conflicts conn f files =
       Inl (ValueError
              (''File conflicts detected for feature '' @ f @ '':\<newline>'' @
               concat (map (\<lambda>cf. ''  - Convoy '' @ cf_convoy_id cf @ '': '' @
                                   join '', '' (cf_overlapping_files cf) @ ''\<newline>'')
                         (check_file_overlap conn f files))))"
  by (simp add: validate_no_file_conflicts_def Let_def)

lemma create_convoy_Inr_iff:
  "fst (create_convoy conn cid f story prio files deps st now) = Inr () \<longleftrightarrow>
     cid \<notin> c_id ` set (convoys conn) \<and> f \<in> f_id ` set (features conn)"
  by (simp add: create_convoy_def)

lemma create_convoy_convoys:
  assumes "create_convoy conn cid f story prio files deps st now = (Inr (), conn')"
  shows "\<exists>new. convoys conn' = convoys conn @ [new] \<and> c_id new = cid \<and> c_feature_id new = f
           \<and> c_files new = files \<and> c_status new = st \<and> cid \<notin> c_id ` set (convoys conn)"
  using assms by (auto simp add: create_convoy_def split: if_splits)

lemma upd_files_id:
  "c_id (if c_id y = k then y\<lparr>c_files := files\<rparr> else y) = c_id y"
  by simp

lemma upd_files_files:
  "c_files (if c_id y = k then y\<lparr>c_files := files\<rparr> else y) = (if c_id y = k then files else c_files y)"
  by simp

lemma convoys_update_convoy_files:
  "convoys (update_convoy_files conn k files) =
     map (\<lambda>c. if c_id c = k then c\<lparr>c_files := files\<rparr> else c) (convoys conn)"
  by (simp add: update_convoy_files_def)

lemma update_convoy_files_stores:
  "\<forall>c \<in> set (convoys (update_convoy_files conn k files)). c_id c = k \<longrightarrow> c_files c = files"
  unfolding convoys_update_convoy_files set_map ball_simps upd_files_id upd_files_files
  by simp

lemma create_convoy_keeps_disjoint:
  assumes v: "validate_no_file_conflicts conn f files = Inr ()"
    and cr: "create_convoy conn cid f story prio files deps st now = (Inr (), conn')"
    and inv: "\<forall>c1 \<in> set (convoys conn). \<forall>c2 \<in> set (convoys conn).
        c_id c1 \<noteq> c_id c2 \<and> c_feature_id c1 = c_feature_id c2
        \<and> c_status c1 \<noteq> ConvDone \<and> c_status c2 \<noteq> ConvDone \<longrightarrow>
        set (c_files c1) \<inter> set (c_files c2) = {}"
  shows "\<forall>c1 \<in> set (convoys conn'). \<forall>c2 \<in> set (convoys conn').
        c_id c1 \<noteq> c_id c2 \<and> c_feature_id c1 = c_feature_id c2
        \<and> c_status c1 \<noteq> ConvDone \<and> c_status c2 \<noteq> ConvDone \<longrightarrow>
        set (c_files c1) \<inter> set (c_files c2) = {}"
proof (intro ballI impI)
  fix c1 c2
  assume m1: "c1 \<in> set (convoys conn')" and m2: "c2 \<in> set (convoys conn')"
    and h: "c_id c1 \<noteq> c_id c2 \<and> c_feature_id c1 = c_feature_id c2
        \<and> c_status c1 \<noteq> ConvDone \<and> c_status c2 \<noteq> ConvDone"
  from create_convoy_convoys [OF cr] obtain new where
    n: "convoys conn' = convoys conn @ [new]" "c_id new = cid" "c_feature_id new = f"
       "c_files new = files" by blast
  from v have old: "\<forall>c \<in> set (convoys conn). c_feature_id c = f \<and> c_status c \<noteq> ConvDone \<longrightarrow>
        set files \<inter> set (c_files c) = {}"
    by (simp only: validate_no_file_conflicts_Inr_iff)
  from m1 n(1) have o1: "c1 \<in> set (convoys conn) \<or> c1 = new" by auto
  from m2 n(1) have o2: "c2 \<in> set (convoys conn) \<or> c2 = new" by auto
  from o1 show "set (c_files c1) \<inter> set (c_files c2) = {}"
  proof
    assume a1: "c1 \<in> set (convoys conn)"
    from o2 show ?thesis
    proof
      assume a2: "c2 \<in> set (convoys conn)"
      from inv a1 a2 h show ?thesis by blast
    next
      assume a2: "c2 = new"
      with h n(3) have "c_feature_id c1 = f \<and> c_status c1 \<noteq> ConvDone" by simp
      with old a1 have "set files \<inter> set (c_files c1) = {}" by blast
      with a2 n(4) show ?thesis by (simp add: Int_commute)
    qed
  next
    assume a1: "c1 = new"
    from o2 show ?thesis
    proof
      assume a2: "c2 \<in> set (convoys conn)"
      from a1 h n(3) have "c_feature_id c2 = f \<and> c_status c2 \<noteq> ConvDone" by simp
      with old a2 have "set files \<inter> set (c_files c2) = {}" by blast
      with a1 n(4) show ?thesis by simp
    next
      assume a2: "c2 = new"
      with a1 h show ?thesis by simp
    qed
  qed
qed

text \<open>
  C5, as the code has it. Neither write checks anything: \<open>create_convoy\<close> succeeds whenever
  the identifier is new and the feature exists, whatever the files, and
  \<open>update_convoy_files\<close> stores the list it is given. The check is the separate function
  \<open>validate_no_file_conflicts\<close>: it returns normally exactly when the proposed files meet
  no file of a convoy of the feature that is not done, and raises \<open>ValueError\<close> otherwise;
  each conflict that \<open>check_file_overlap\<close> reports names such a convoy together with
  exactly the files shared with it, every such convoy that shares a file is reported, and the
  message of the error has one line for each conflict, with the convoy and its files. A creation that follows a successful validation of the
  same files for the same feature keeps the files of any two convoys of one feature that
  are not done disjoint.
\<close>

theorem validate_no_file_conflicts_guards_creation:
  "(validate_no_file_conflicts conn f files = Inr () \<longleftrightarrow>
      (\<forall>c \<in> set (convoys conn). c_feature_id c = f \<and> c_status c \<noteq> ConvDone \<longrightarrow>
         set files \<inter> set (c_files c) = {}))
   \<and> (validate_no_file_conflicts conn f files = Inr () \<or>
       (\<exists>msg. validate_no_file_conflicts conn f files = Inl (ValueError msg)))
   \<and> (\<forall>cf \<in> set (check_file_overlap conn f files).
         \<exists>c \<in> set (convoys conn). c_feature_id c = f \<and> c_status c \<noteq> ConvDone
            \<and> cf_convoy_id cf = c_id c
            \<and> set (cf_overlapping_files cf) = set files \<inter> set (c_files c)
            \<and> cf_overlapping_files cf \<noteq> [])
   \<and> (\<forall>c \<in> set (convoys conn).
         c_feature_id c = f \<and> c_status c \<noteq> ConvDone \<and> set files \<inter> set (c_files c) \<noteq> {} \<longrightarrow>
         (\<exists>cf \<in> set (check_file_overlap conn f files). cf_convoy_id cf = c_id c
            \<and> set (cf_overlapping_files cf) = set files \<inter> set (c_files c)))
   \<and> (check_file_overlap conn f files \<noteq> [] \<longrightarrow>
         validate_no_file_conflicts conn f files =
           Inl (ValueError
                  (''File conflicts detected for feature '' @ f @ '':\<newline>'' @
                   concat (map (\<lambda>cf. ''  - Convoy '' @ cf_convoy_id cf @ '': '' @
                                       join '', '' (cf_overlapping_files cf) @ ''\<newline>'')
                             (check_file_overlap conn f files)))))
   \<and> (fst (create_convoy conn cid f story prio files deps st now) = Inr () \<longleftrightarrow>
         cid \<notin> c_id ` set (convoys conn) \<and> f \<in> f_id ` set (features conn))
   \<and> (\<forall>c \<in> set (convoys (update_convoy_files conn k files)). c_id c = k \<longrightarrow> c_files c = files)
   \<and> (validate_no_file_conflicts conn f files = Inr ()
        \<and> create_convoy conn cid f story prio files deps st now = (Inr (), conn')
        \<and> (\<forall>c1 \<in> set (convoys conn). \<forall>c2 \<in> set (convoys conn).
              c_id c1 \<noteq> c_id c2 \<and> c_feature_id c1 = c_feature_id c2
              \<and> c_status c1 \<noteq> ConvDone \<and> c_status c2 \<noteq> ConvDone \<longrightarrow>
              set (c_files c1) \<inter> set (c_files c2) = {}) \<longrightarrow>
       (\<forall>c1 \<in> set (convoys conn'). \<forall>c2 \<in> set (convoys conn').
              c_id c1 \<noteq> c_id c2 \<and> c_feature_id c1 = c_feature_id c2
              \<and> c_status c1 \<noteq> ConvDone \<and> c_status c2 \<noteq> ConvDone \<longrightarrow>
              set (c_files c1) \<inter> set (c_files c2) = {}))"
proof -
  have p1: "validate_no_file_conflicts conn f files = Inr () \<longleftrightarrow>
      (\<forall>c \<in> set (convoys conn). c_feature_id c = f \<and> c_status c \<noteq> ConvDone \<longrightarrow>
         set files \<inter> set (c_files c) = {})"
    by (rule validate_no_file_conflicts_Inr_iff)
  have p2: "validate_no_file_conflicts conn f files = Inr () \<or>
       (\<exists>msg. validate_no_file_conflicts conn f files = Inl (ValueError msg))"
    by (rule validate_no_file_conflicts_cases)
  have p3: "\<forall>cf \<in> set (check_file_overlap conn f files).
         \<exists>c \<in> set (convoys conn). c_feature_id c = f \<and> c_status c \<noteq> ConvDone
            \<and> cf_convoy_id cf = c_id c
            \<and> set (cf_overlapping_files cf) = set files \<inter> set (c_files c)
            \<and> cf_overlapping_files cf \<noteq> []"
    by (rule ballI) (rule check_file_overlap_member)
  have p3a: "\<forall>c \<in> set (convoys conn).
         c_feature_id c = f \<and> c_status c \<noteq> ConvDone \<and> set files \<inter> set (c_files c) \<noteq> {} \<longrightarrow>
         (\<exists>cf \<in> set (check_file_overlap conn f files). cf_convoy_id cf = c_id c
            \<and> set (cf_overlapping_files cf) = set files \<inter> set (c_files c))"
  proof (intro ballI impI)
    fix c
    assume m: "c \<in> set (convoys conn)"
      and h: "c_feature_id c = f \<and> c_status c \<noteq> ConvDone \<and> set files \<inter> set (c_files c) \<noteq> {}"
    show "\<exists>cf \<in> set (check_file_overlap conn f files). cf_convoy_id cf = c_id c
            \<and> set (cf_overlapping_files cf) = set files \<inter> set (c_files c)"
      by (rule check_file_overlap_complete [OF m h [THEN conjunct1]
            h [THEN conjunct2, THEN conjunct1] h [THEN conjunct2, THEN conjunct2]])
  qed
  have p3b: "check_file_overlap conn f files \<noteq> [] \<longrightarrow>
         validate_no_file_conflicts conn f files =
           Inl (ValueError
                  (''File conflicts detected for feature '' @ f @ '':\<newline>'' @
                   concat (map (\<lambda>cf. ''  - Convoy '' @ cf_convoy_id cf @ '': '' @
                                       join '', '' (cf_overlapping_files cf) @ ''\<newline>'')
                             (check_file_overlap conn f files))))"
    by (rule impI) (rule validate_no_file_conflicts_message)
  have p4: "fst (create_convoy conn cid f story prio files deps st now) = Inr () \<longleftrightarrow>
         cid \<notin> c_id ` set (convoys conn) \<and> f \<in> f_id ` set (features conn)"
    by (rule create_convoy_Inr_iff)
  have p5: "\<forall>c \<in> set (convoys (update_convoy_files conn k files)). c_id c = k \<longrightarrow> c_files c = files"
    by (rule update_convoy_files_stores)
  have p6: "validate_no_file_conflicts conn f files = Inr ()
        \<and> create_convoy conn cid f story prio files deps st now = (Inr (), conn')
        \<and> (\<forall>c1 \<in> set (convoys conn). \<forall>c2 \<in> set (convoys conn).
              c_id c1 \<noteq> c_id c2 \<and> c_feature_id c1 = c_feature_id c2
              \<and> c_status c1 \<noteq> ConvDone \<and> c_status c2 \<noteq> ConvDone \<longrightarrow>
              set (c_files c1) \<inter> set (c_files c2) = {}) \<longrightarrow>
       (\<forall>c1 \<in> set (convoys conn'). \<forall>c2 \<in> set (convoys conn').
              c_id c1 \<noteq> c_id c2 \<and> c_feature_id c1 = c_feature_id c2
              \<and> c_status c1 \<noteq> ConvDone \<and> c_status c2 \<noteq> ConvDone \<longrightarrow>
              set (c_files c1) \<inter> set (c_files c2) = {})"
  proof (rule impI)
    assume h: "validate_no_file_conflicts conn f files = Inr ()
        \<and> create_convoy conn cid f story prio files deps st now = (Inr (), conn')
        \<and> (\<forall>c1 \<in> set (convoys conn). \<forall>c2 \<in> set (convoys conn).
              c_id c1 \<noteq> c_id c2 \<and> c_feature_id c1 = c_feature_id c2
              \<and> c_status c1 \<noteq> ConvDone \<and> c_status c2 \<noteq> ConvDone \<longrightarrow>
              set (c_files c1) \<inter> set (c_files c2) = {})"
    show "\<forall>c1 \<in> set (convoys conn'). \<forall>c2 \<in> set (convoys conn').
              c_id c1 \<noteq> c_id c2 \<and> c_feature_id c1 = c_feature_id c2
              \<and> c_status c1 \<noteq> ConvDone \<and> c_status c2 \<noteq> ConvDone \<longrightarrow>
              set (c_files c1) \<inter> set (c_files c2) = {}"
      by (rule create_convoy_keeps_disjoint [OF h [THEN conjunct1]
            h [THEN conjunct2, THEN conjunct1] h [THEN conjunct2, THEN conjunct2]])
  qed
  from p1 p2 p3 p3a p3b p4 p5 p6 show ?thesis by (intro conjI)
qed

lemma example_create_disjoint:
  "create_convoy
     (store_of_convoys [example_feature ''F1'']
        [example_convoy ''c1'' ''F1'' ''P1'' Available [''src/a.py'', ''src/b.py''] []
           ''2026-01-01 00:00:01''])
     ''c2'' ''F1'' ''US1'' ''P1'' [''src/c.py''] None Available ''2026-01-01 00:00:02'' =
   (Inr (),
    store_of_convoys [example_feature ''F1'']
        [example_convoy ''c1'' ''F1'' ''P1'' Available [''src/a.py'', ''src/b.py''] []
           ''2026-01-01 00:00:01'',
         example_convoy ''c2'' ''F1'' ''P1'' Available [''src/c.py''] [] ''2026-01-01 00:00:02''])"
  by (simp add: create_convoy_def store_of_convoys_def example_convoy_def example_feature_def)

lemma example_validate_disjoint:
  "validate_no_file_conflicts
     (store_of_convoys [example_feature ''F1'']
        [example_convoy ''c1'' ''F1'' ''P1'' Available [''src/a.py'', ''src/b.py''] []
           ''2026-01-01 00:00:01''])
     ''F1'' [''src/c.py''] = Inr ()"
  by (simp add: validate_no_file_conflicts_def check_file_overlap_def list_convoys_by_feature_def
      store_of_convoys_def example_convoy_def)

theorem validate_no_file_conflicts_guards_creation_witness:
  "validate_no_file_conflicts
     (store_of_convoys [example_feature ''F1'']
        [example_convoy ''c1'' ''F1'' ''P1'' Available [''src/a.py'', ''src/b.py''] []
           ''2026-01-01 00:00:01''])
     ''F1'' [''src/c.py''] = Inr ()
   \<and> create_convoy
     (store_of_convoys [example_feature ''F1'']
        [example_convoy ''c1'' ''F1'' ''P1'' Available [''src/a.py'', ''src/b.py''] []
           ''2026-01-01 00:00:01''])
     ''c2'' ''F1'' ''US1'' ''P1'' [''src/c.py''] None Available ''2026-01-01 00:00:02'' =
   (Inr (),
    store_of_convoys [example_feature ''F1'']
        [example_convoy ''c1'' ''F1'' ''P1'' Available [''src/a.py'', ''src/b.py''] []
           ''2026-01-01 00:00:01'',
         example_convoy ''c2'' ''F1'' ''P1'' Available [''src/c.py''] [] ''2026-01-01 00:00:02''])
   \<and> set (c_files (example_convoy ''c1'' ''F1'' ''P1'' Available [''src/a.py'', ''src/b.py''] []
           ''2026-01-01 00:00:01''))
       \<inter> set (c_files (example_convoy ''c2'' ''F1'' ''P1'' Available [''src/c.py''] []
           ''2026-01-01 00:00:02'')) = {}"
proof -
  let ?c1 = "example_convoy ''c1'' ''F1'' ''P1'' Available [''src/a.py'', ''src/b.py''] []
           ''2026-01-01 00:00:01''"
  let ?c2 = "example_convoy ''c2'' ''F1'' ''P1'' Available [''src/c.py''] [] ''2026-01-01 00:00:02''"
  let ?S1 = "store_of_convoys [example_feature ''F1''] [?c1]"
  let ?S2 = "store_of_convoys [example_feature ''F1''] [?c1, ?c2]"
  have inv: "\<forall>c1 \<in> set (convoys ?S1). \<forall>c2 \<in> set (convoys ?S1).
              c_id c1 \<noteq> c_id c2 \<and> c_feature_id c1 = c_feature_id c2
              \<and> c_status c1 \<noteq> ConvDone \<and> c_status c2 \<noteq> ConvDone \<longrightarrow>
              set (c_files c1) \<inter> set (c_files c2) = {}"
    by (simp add: store_of_convoys_def)
  have h: "validate_no_file_conflicts ?S1 ''F1'' [''src/c.py''] = Inr ()
        \<and> create_convoy ?S1 ''c2'' ''F1'' ''US1'' ''P1'' [''src/c.py''] None Available
             ''2026-01-01 00:00:02'' = (Inr (), ?S2)
        \<and> (\<forall>c1 \<in> set (convoys ?S1). \<forall>c2 \<in> set (convoys ?S1).
              c_id c1 \<noteq> c_id c2 \<and> c_feature_id c1 = c_feature_id c2
              \<and> c_status c1 \<noteq> ConvDone \<and> c_status c2 \<noteq> ConvDone \<longrightarrow>
              set (c_files c1) \<inter> set (c_files c2) = {})"
    using example_validate_disjoint example_create_disjoint inv by (intro conjI)
  note t = validate_no_file_conflicts_guards_creation [where conn = ?S1 and f = "''F1''"
      and files = "[''src/c.py'']" and cid = "''c2''" and story = "''US1''" and prio = "''P1''"
      and deps = None and st = Available and now = "''2026-01-01 00:00:02''" and conn' = ?S2]
  note after = t [THEN conjunct2, THEN conjunct2, THEN conjunct2, THEN conjunct2, THEN conjunct2,
      THEN conjunct2, THEN conjunct2, THEN mp, OF h]
  have m1: "?c1 \<in> set (convoys ?S2)" by (simp add: store_of_convoys_def)
  have m2: "?c2 \<in> set (convoys ?S2)" by (simp add: store_of_convoys_def)
  have g: "c_id ?c1 \<noteq> c_id ?c2 \<and> c_feature_id ?c1 = c_feature_id ?c2
              \<and> c_status ?c1 \<noteq> ConvDone \<and> c_status ?c2 \<noteq> ConvDone"
    by (simp add: example_convoy_def)
  have d: "set (c_files ?c1) \<inter> set (c_files ?c2) = {}"
    by (rule after [THEN bspec, OF m1, THEN bspec, OF m2, THEN mp, OF g])
  from example_validate_disjoint example_create_disjoint d show ?thesis by (intro conjI)
qed

text \<open>
  C5 as stated fails: on a store with feature \<open>F1\<close>, both creations of the scenario with the
  file lists \<open>["src/a.py", "src/b.py"]\<close> and \<open>["src/b.py", "src/c.py"]\<close> succeed, and
  \<open>update_convoy_files\<close> turns two disjoint convoys into the same overlapping pair; the two
  available convoys then share \<open>src/b.py\<close>. Only the separate validation reports the
  overlap, and with a \<open>ValueError\<close>.
\<close>

theorem create_convoy_overlap_counterexample:
  "create_convoy (store_of_convoys [example_feature ''F1''] [])
     ''c1'' ''F1'' ''US1'' ''P1'' [''src/a.py'', ''src/b.py''] None Available ''2026-01-01 00:00:01'' =
   (Inr (),
    store_of_convoys [example_feature ''F1'']
        [example_convoy ''c1'' ''F1'' ''P1'' Available [''src/a.py'', ''src/b.py''] []
           ''2026-01-01 00:00:01''])
   \<and> create_convoy
     (store_of_convoys [example_feature ''F1'']
        [example_convoy ''c1'' ''F1'' ''P1'' Available [''src/a.py'', ''src/b.py''] []
           ''2026-01-01 00:00:01''])
     ''c2'' ''F1'' ''US1'' ''P1'' [''src/b.py'', ''src/c.py''] None Available ''2026-01-01 00:00:02'' =
   (Inr (),
    store_of_convoys [example_feature ''F1'']
        [example_convoy ''c1'' ''F1'' ''P1'' Available [''src/a.py'', ''src/b.py''] []
           ''2026-01-01 00:00:01'',
         example_convoy ''c2'' ''F1'' ''P1'' Available [''src/b.py'', ''src/c.py''] []
           ''2026-01-01 00:00:02''])
   \<and> update_convoy_files
     (store_of_convoys [example_feature ''F1'']
        [example_convoy ''c1'' ''F1'' ''P1'' Available [''src/a.py'', ''src/b.py''] []
           ''2026-01-01 00:00:01'',
         example_convoy ''c2'' ''F1'' ''P1'' Available [''src/c.py''] [] ''2026-01-01 00:00:02''])
     ''c2'' [''src/b.py'', ''src/c.py''] =
    store_of_convoys [example_feature ''F1'']
        [example_convoy ''c1'' ''F1'' ''P1'' Available [''src/a.py'', ''src/b.py''] []
           ''2026-01-01 00:00:01'',
         example_convoy ''c2'' ''F1'' ''P1'' Available [''src/b.py'', ''src/c.py''] []
           ''2026-01-01 00:00:02'']
   \<and> set (c_files (example_convoy ''c1'' ''F1'' ''P1'' Available [''src/a.py'', ''src/b.py''] []
           ''2026-01-01 00:00:01''))
       \<inter> set (c_files (example_convoy ''c2'' ''F1'' ''P1'' Available [''src/b.py'', ''src/c.py''] []
           ''2026-01-01 00:00:02'')) = {''src/b.py''}
   \<and> validate_no_file_conflicts
     (store_of_convoys [example_feature ''F1'']
        [example_convoy ''c1'' ''F1'' ''P1'' Available [''src/a.py'', ''src/b.py''] []
           ''2026-01-01 00:00:01''])
     ''F1'' [''src/b.py'', ''src/c.py''] =
     Inl (ValueError ''File conflicts detected for feature F1:\<newline>  - Convoy c1: src/b.py\<newline>'')"
  by (simp add: create_convoy_def update_convoy_files_def validate_no_file_conflicts_def
      check_file_overlap_def list_convoys_by_feature_def store_of_convoys_def example_convoy_def
      example_feature_def)

section \<open>Convoys: lookups\<close>

lemma find_convoy_Some:
  "find (\<lambda>c. c_id c = k) xs = Some r \<Longrightarrow> r \<in> set xs \<and> c_id r = k"
  by (induction xs) (auto split: if_splits)

lemma find_convoy_None:
  "find (\<lambda>c. c_id c = k) xs = None \<longleftrightarrow> k \<notin> c_id ` set xs"
  by (induction xs) auto

lemma find_convoy_distinct:
  "distinct (map c_id xs) \<Longrightarrow> r \<in> set xs \<Longrightarrow> find (\<lambda>c. c_id c = c_id r) xs = Some r"
  by (induction xs) (auto simp add: image_iff)

lemma find_convoy_map_update:
  "find (\<lambda>c. c_id c = k) xs = Some r \<Longrightarrow> c_id (upd r) = k \<Longrightarrow>
   find (\<lambda>c. c_id c = k) (map (\<lambda>c. if c_id c = k then upd c else c) xs) = Some (upd r)"
  by (induction xs) (auto split: if_splits)

lemma get_convoy_Some: "get_convoy conn k = Some r \<Longrightarrow> r \<in> set (convoys conn) \<and> c_id r = k"
  unfolding get_convoy_def by (rule find_convoy_Some)

lemma get_convoy_distinct:
  "distinct (map c_id (convoys conn)) \<Longrightarrow> r \<in> set (convoys conn) \<Longrightarrow>
   get_convoy conn (c_id r) = Some r"
  unfolding get_convoy_def by (rule find_convoy_distinct)

lemma dependencies_done_iff:
  "dependencies_done conn deps \<longleftrightarrow>
     (\<forall>d \<in> set deps. \<exists>dc. get_convoy conn d = Some dc \<and> c_status dc = ConvDone)"
  by (induction deps) (auto split: option.splits)

lemma check_convoy_dependencies_met_iff:
  "check_convoy_dependencies_met conn k \<longleftrightarrow>
     (\<exists>c. get_convoy conn k = Some c \<and>
        (\<forall>ds. c_dependencies c = Some ds \<longrightarrow>
           (\<forall>d \<in> set ds. \<exists>dc. get_convoy conn d = Some dc \<and> c_status dc = ConvDone)))"
proof (cases "get_convoy conn k")
  case None
  then show ?thesis by (simp add: check_convoy_dependencies_met_def)
next
  case (Some c)
  show ?thesis
  proof (cases "c_dependencies c")
    case None
    with Some show ?thesis by (simp add: check_convoy_dependencies_met_def)
  next
    case ds: (Some ds)
    have "check_convoy_dependencies_met conn k \<longleftrightarrow> dependencies_done conn ds"
      using Some ds by (cases ds) (simp_all add: check_convoy_dependencies_met_def)
    with Some ds show ?thesis by (simp add: dependencies_done_iff)
  qed
qed

lemma sort_key_head_least:
  assumes "sort_key f xs = y # ys"
  shows "y \<in> set xs \<and> (\<forall>x \<in> set xs. f y \<le> f x)"
proof -
  have s: "set (sort_key f xs) = set xs" by simp
  have "sorted (map f (sort_key f xs))" by (rule sorted_sort_key)
  with assms have "\<forall>x \<in> set ys. f y \<le> f x" by simp
  moreover from s assms have "set xs = insert y (set ys)" by simp
  ultimately show ?thesis by auto
qed

lemma list_convoys_by_feature_set:
  "set (list_convoys_by_feature conn f (Some st)) =
     {c \<in> set (convoys conn). c_feature_id c = f \<and> c_status c = st}"
  by (auto simp add: list_convoys_by_feature_def)

lemma get_convoy_update_convoy_status:
  assumes "get_convoy conn k = Some r"
  shows "\<exists>r'. get_convoy (update_convoy_status conn k st asg now) k = Some r' \<and>
              c_status r' = st \<and> c_assignee r' = asg \<and> c_feature_id r' = c_feature_id r"
proof -
  let ?upd = "\<lambda>c. if st = ConvInProgress
                   then c\<lparr>c_status := st, c_assignee := asg, c_started_at := Some now\<rparr>
                   else if st = ConvDone
                   then c\<lparr>c_status := st, c_assignee := asg, c_completed_at := Some now\<rparr>
                   else c\<lparr>c_status := st, c_assignee := asg\<rparr>"
  have f: "find (\<lambda>c. c_id c = k) (convoys conn) = Some r"
    using assms by (simp add: get_convoy_def)
  have i: "c_id (?upd r) = k" using find_convoy_Some [OF f] by simp
  have "get_convoy (update_convoy_status conn k st asg now) k = Some (?upd r)"
    using find_convoy_map_update [of k "convoys conn" r ?upd, OF f i]
    by (simp add: get_convoy_def update_convoy_status_def)
  then show ?thesis by simp
qed

lemma allocate_next_convoy_Some:
  assumes "allocate_next_convoy conn f agent now = (Some cid, conn')"
  shows "\<exists>c ys. sort_key (\<lambda>c. (c_priority c, c_created_at c))
                 (list_convoys_by_feature conn f (Some Available)) = c # ys
            \<and> c_id c = cid \<and> check_convoy_dependencies_met conn cid
            \<and> conn' = update_convoy_status conn cid ConvInProgress (Some agent) now"
proof (cases "sort_key (\<lambda>c. (c_priority c, c_created_at c))
                 (list_convoys_by_feature conn f (Some Available))")
  case Nil
  with assms show ?thesis
    by (simp add: allocate_next_convoy_def Let_def split: if_splits)
next
  case (Cons c ys)
  with assms show ?thesis
    by (auto simp add: allocate_next_convoy_def Let_def split: if_splits)
qed

lemma allocate_next_convoy_least:
  assumes d: "distinct (map c_id (convoys conn))"
    and a: "allocate_next_convoy conn f agent now = (Some cid, conn')"
  shows "(\<exists>c. get_convoy conn cid = Some c \<and> c_feature_id c = f \<and> c_status c = Available
           \<and> (\<forall>ds. c_dependencies c = Some ds \<longrightarrow>
                 (\<forall>d \<in> set ds. \<exists>dc. get_convoy conn d = Some dc \<and> c_status dc = ConvDone))
           \<and> (\<forall>c' \<in> set (convoys conn). c_feature_id c' = f \<and> c_status c' = Available \<longrightarrow>
                 (c_priority c, c_created_at c) \<le> (c_priority c', c_created_at c')))
     \<and> (\<exists>c'. get_convoy conn' cid = Some c' \<and> c_status c' = ConvInProgress
           \<and> c_assignee c' = Some agent)"
proof -
  from allocate_next_convoy_Some [OF a] obtain c ys where
    s: "sort_key (\<lambda>c. (c_priority c, c_created_at c))
          (list_convoys_by_feature conn f (Some Available)) = c # ys"
    and i: "c_id c = cid" and m: "check_convoy_dependencies_met conn cid"
    and u: "conn' = update_convoy_status conn cid ConvInProgress (Some agent) now"
    by blast
  from sort_key_head_least [OF s]
  have c_in: "c \<in> set (list_convoys_by_feature conn f (Some Available))"
    and least: "\<forall>x \<in> set (list_convoys_by_feature conn f (Some Available)).
        (c_priority c, c_created_at c) \<le> (c_priority x, c_created_at x)"
    by blast+
  from c_in have cm: "c \<in> set (convoys conn)" "c_feature_id c = f" "c_status c = Available"
    by (simp_all add: list_convoys_by_feature_set)
  have g: "get_convoy conn cid = Some c"
    using get_convoy_distinct [OF d cm(1)] i by simp
  from m g have deps: "\<forall>ds. c_dependencies c = Some ds \<longrightarrow>
      (\<forall>d \<in> set ds. \<exists>dc. get_convoy conn d = Some dc \<and> c_status dc = ConvDone)"
    by (simp add: check_convoy_dependencies_met_iff)
  have l2: "\<forall>c' \<in> set (convoys conn). c_feature_id c' = f \<and> c_status c' = Available \<longrightarrow>
      (c_priority c, c_created_at c) \<le> (c_priority c', c_created_at c')"
    using least by (simp add: list_convoys_by_feature_set)
  from get_convoy_update_convoy_status [OF g, of ConvInProgress "Some agent" now] u
  have after: "\<exists>c'. get_convoy conn' cid = Some c' \<and> c_status c' = ConvInProgress
      \<and> c_assignee c' = Some agent"
    by auto
  from g cm(2,3) deps l2 after show ?thesis by blast
qed

section \<open>The unblock sweep\<close>

lemma find_gate_view:
  "map_option gate_view (find (\<lambda>c. c_id c = k) xs) = find (\<lambda>v. fst v = k) (map gate_view xs)"
  by (induction xs) (simp_all add: gate_view_def)

lemma get_convoy_gate_view:
  assumes "map gate_view (convoys conn) = map gate_view (convoys conn0)"
  shows "map_option gate_view (get_convoy conn k) = map_option gate_view (get_convoy conn0 k)"
  unfolding get_convoy_def find_gate_view assms ..

lemma get_convoy_done_view:
  "(\<exists>dc. get_convoy conn d = Some dc \<and> c_status dc = ConvDone) \<longleftrightarrow>
   (\<exists>v. map_option gate_view (get_convoy conn d) = Some v \<and> snd (snd (snd v)))"
  by (cases "get_convoy conn d") (simp_all add: gate_view_def)

lemma check_convoy_dependencies_met_view:
  "check_convoy_dependencies_met conn k \<longleftrightarrow>
     (\<exists>v. map_option gate_view (get_convoy conn k) = Some v \<and>
        (\<forall>ds. fst (snd (snd v)) = Some ds \<longrightarrow>
           (\<forall>d \<in> set ds. \<exists>w. map_option gate_view (get_convoy conn d) = Some w \<and> snd (snd (snd w)))))"
  unfolding check_convoy_dependencies_met_iff get_convoy_done_view
  by (cases "get_convoy conn k") (simp_all add: gate_view_def)

lemma check_convoy_dependencies_met_cong:
  assumes "map gate_view (convoys conn) = map gate_view (convoys conn0)"
  shows "check_convoy_dependencies_met conn k = check_convoy_dependencies_met conn0 k"
  unfolding check_convoy_dependencies_met_view get_convoy_gate_view [OF assms] ..

lemma not_done_view:
  "(\<forall>x \<in> set xs. c_id x = k \<longrightarrow> c_status x \<noteq> ConvDone) \<longleftrightarrow>
   (\<forall>v \<in> set (map gate_view xs). fst v = k \<longrightarrow> \<not> snd (snd (snd v)))"
  by (auto simp add: gate_view_def)

lemma convoys_update_convoy_status_Available:
  "convoys (update_convoy_status conn k Available None now) =
     map (\<lambda>c. if c_id c = k then c\<lparr>c_status := Available, c_assignee := None\<rparr> else c) (convoys conn)"
  by (simp add: update_convoy_status_def)

lemma unblock_step_view:
  assumes "\<forall>x \<in> set (convoys conn). c_id x = k \<longrightarrow> c_status x \<noteq> ConvDone"
  shows "map gate_view (convoys (update_convoy_status conn k Available None now))
           = map gate_view (convoys conn)"
  unfolding convoys_update_convoy_status_Available
  using assms by (induction "convoys conn" arbitrary: conn) (auto simp add: gate_view_def)

lemma upd_available_status:
  "c_status (if c_id y = k then y\<lparr>c_status := Available, c_assignee := None\<rparr> else y) = Available
     \<longleftrightarrow> c_id y = k \<or> c_status y = Available"
  by simp

lemma upd_available_id:
  "c_id (if c_id y = k then y\<lparr>c_status := Available, c_assignee := None\<rparr> else y) = c_id y"
  by simp

lemma unblock_step_target:
  "\<forall>x \<in> set (convoys (update_convoy_status conn k Available None now)).
           c_id x = k \<longrightarrow> c_status x = Available"
  unfolding convoys_update_convoy_status_Available set_map ball_simps upd_available_id upd_available_status
  by simp

lemma unblock_step_available:
  assumes "\<forall>x \<in> set (convoys conn). c_id x = k \<longrightarrow> c_status x = Available"
  shows "\<forall>x \<in> set (convoys (update_convoy_status conn k' Available None now)).
           c_id x = k \<longrightarrow> c_status x = Available"
  unfolding convoys_update_convoy_status_Available set_map ball_simps upd_available_id upd_available_status
  using assms by simp


lemma unblock_loop_available:
  assumes "\<forall>x \<in> set (convoys conn). c_id x = k \<longrightarrow> c_status x = Available"
  shows "\<forall>x \<in> set (convoys (snd (unblock_loop conn bs cnt now))).
           c_id x = k \<longrightarrow> c_status x = Available"
  using assms
proof (induction bs arbitrary: conn cnt)
  case Nil
  then show ?case by simp
next
  case (Cons b bs)
  show ?case
  proof (cases "check_convoy_dependencies_met conn (c_id b)")
    case True
    have "\<forall>x \<in> set (convoys (update_convoy_status conn (c_id b) Available None now)).
           c_id x = k \<longrightarrow> c_status x = Available"
      by (rule unblock_step_available [OF Cons.prems])
    from Cons.IH [OF this] True show ?thesis by simp
  next
    case False
    from Cons.IH [OF Cons.prems] False show ?thesis by simp
  qed
qed

lemma unblock_loop_view:
  assumes "map gate_view (convoys conn) = V"
    and "\<forall>b \<in> set bs. \<forall>v \<in> set V. fst v = c_id b \<longrightarrow> \<not> snd (snd (snd v))"
  shows "map gate_view (convoys (snd (unblock_loop conn bs cnt now))) = V"
  using assms
proof (induction bs arbitrary: conn cnt)
  case Nil
  then show ?case by simp
next
  case (Cons b bs)
  have rest: "\<forall>b \<in> set bs. \<forall>v \<in> set V. fst v = c_id b \<longrightarrow> \<not> snd (snd (snd v))"
    using Cons.prems(2) by simp
  show ?case
  proof (cases "check_convoy_dependencies_met conn (c_id b)")
    case True
    have "\<forall>v \<in> set (map gate_view (convoys conn)). fst v = c_id b \<longrightarrow> \<not> snd (snd (snd v))"
      using Cons.prems by simp
    then have nd: "\<forall>x \<in> set (convoys conn). c_id x = c_id b \<longrightarrow> c_status x \<noteq> ConvDone"
      by (simp only: not_done_view)
    have "map gate_view (convoys (update_convoy_status conn (c_id b) Available None now)) = V"
      using unblock_step_view [OF nd] Cons.prems(1) by simp
    from Cons.IH [OF this rest] True show ?thesis by simp
  next
    case False
    from Cons.IH [OF Cons.prems(1) rest] False show ?thesis by simp
  qed
qed

lemma unblock_loop_target:
  assumes "map gate_view (convoys conn) = map gate_view (convoys conn0)"
    and "\<forall>b \<in> set bs. \<forall>v \<in> set (map gate_view (convoys conn0)). fst v = c_id b \<longrightarrow> \<not> snd (snd (snd v))"
    and "b \<in> set bs"
    and "check_convoy_dependencies_met conn0 (c_id b)"
  shows "\<forall>x \<in> set (convoys (snd (unblock_loop conn bs cnt now))).
           c_id x = c_id b \<longrightarrow> c_status x = Available"
  using assms(1,2,3)
proof (induction bs arbitrary: conn cnt)
  case Nil
  then show ?case by simp
next
  case (Cons a bs)
  have rest: "\<forall>b \<in> set bs. \<forall>v \<in> set (map gate_view (convoys conn0)).
      fst v = c_id b \<longrightarrow> \<not> snd (snd (snd v))"
    using Cons.prems(2) by simp
  have nd: "\<forall>x \<in> set (convoys conn). c_id x = c_id a \<longrightarrow> c_status x \<noteq> ConvDone"
    unfolding not_done_view Cons.prems(1) using Cons.prems(2) by simp
  have v1: "map gate_view (convoys (update_convoy_status conn (c_id a) Available None now))
      = map gate_view (convoys conn0)"
    using unblock_step_view [OF nd] Cons.prems(1) by simp
  show ?case
  proof (cases "c_id a = c_id b")
    case True
    have "check_convoy_dependencies_met conn (c_id a)"
      using check_convoy_dependencies_met_cong [OF Cons.prems(1), of "c_id a"] assms(4) True
      by simp
    moreover have "\<forall>x \<in> set (convoys (snd (unblock_loop
        (update_convoy_status conn (c_id a) Available None now) bs (cnt + 1) now))).
           c_id x = c_id b \<longrightarrow> c_status x = Available"
      using unblock_loop_available [OF unblock_step_target [of conn "c_id a" now]] True by simp
    ultimately show ?thesis by simp
  next
    case False
    with Cons.prems(3) have bm: "b \<in> set bs" by auto
    show ?thesis
    proof (cases "check_convoy_dependencies_met conn (c_id a)")
      case True
      from Cons.IH [OF v1 rest bm] True show ?thesis by simp
    next
      case False
      from Cons.IH [OF Cons.prems(1) rest bm] False show ?thesis by simp
    qed
  qed
qed

lemma distinct_c_id_eq:
  "distinct (map c_id xs) \<Longrightarrow> x \<in> set xs \<Longrightarrow> y \<in> set xs \<Longrightarrow> c_id x = c_id y \<Longrightarrow> x = y"
  by (meson distinct_map inj_on_eq_iff)

lemma unblock_dependent_convoys_flips:
  assumes d: "distinct (map c_id (convoys conn))"
    and cc: "get_convoy conn completed = Some cc"
    and c: "get_convoy conn cid = Some c"
    and f: "c_feature_id c = c_feature_id cc"
    and b: "c_status c = Blocked"
    and m: "check_convoy_dependencies_met conn cid"
  shows "map gate_view (convoys (snd (unblock_dependent_convoys conn completed now)))
           = map gate_view (convoys conn)"
    and "\<forall>x \<in> set (convoys (snd (unblock_dependent_convoys conn completed now))).
           c_id x = cid \<longrightarrow> c_status x = Available"
proof -
  let ?bs = "list_convoys_by_feature conn (c_feature_id cc) (Some Blocked)"
  have u: "unblock_dependent_convoys conn completed now = unblock_loop conn ?bs 0 now"
    using cc by (simp add: unblock_dependent_convoys_def)
  have cm: "c \<in> set (convoys conn)" "c_id c = cid"
    using get_convoy_Some [OF c] by simp_all
  have cb: "c \<in> set ?bs" using cm(1) f b by (simp add: list_convoys_by_feature_set)
  have nd: "\<forall>b \<in> set ?bs. \<forall>v \<in> set (map gate_view (convoys conn)).
      fst v = c_id b \<longrightarrow> \<not> snd (snd (snd v))"
  proof (intro ballI)
    fix b0 v
    assume b0: "b0 \<in> set ?bs" and v: "v \<in> set (map gate_view (convoys conn))"
    from b0 have b0m: "b0 \<in> set (convoys conn)" "c_status b0 = Blocked"
      by (simp_all add: list_convoys_by_feature_set)
    from v obtain x where x: "x \<in> set (convoys conn)" "v = gate_view x" by auto
    show "fst v = c_id b0 \<longrightarrow> \<not> snd (snd (snd v))"
    proof
      assume "fst v = c_id b0"
      with x(2) have "c_id x = c_id b0" by (simp add: gate_view_def)
      with distinct_c_id_eq [OF d x(1) b0m(1)] have "x = b0" by simp
      with b0m(2) x(2) show "\<not> snd (snd (snd v))" by (simp add: gate_view_def)
    qed
  qed
  show "map gate_view (convoys (snd (unblock_dependent_convoys conn completed now)))
           = map gate_view (convoys conn)"
    unfolding u by (rule unblock_loop_view [OF refl nd])
  have "check_convoy_dependencies_met conn (c_id c)" using m cm(2) by simp
  from unblock_loop_target [OF refl nd cb this, of 0 now] cm(2)
  show "\<forall>x \<in> set (convoys (snd (unblock_dependent_convoys conn completed now))).
           c_id x = cid \<longrightarrow> c_status x = Available"
    unfolding u by simp
qed

lemma allocate_next_convoy_head:
  assumes s: "sort_key (\<lambda>c. (c_priority c, c_created_at c))
                (list_convoys_by_feature conn f (Some Available)) = y # ys"
    and m: "check_convoy_dependencies_met conn (c_id y)"
  shows "allocate_next_convoy conn f agent now =
           (Some (c_id y), update_convoy_status conn (c_id y) ConvInProgress (Some agent) now)"
proof -
  have "list_convoys_by_feature conn f (Some Available) \<noteq> []"
    using s by (cases "list_convoys_by_feature conn f (Some Available)") simp_all
  with s m show ?thesis by (simp add: allocate_next_convoy_def Let_def)
qed

lemma gate_view_member:
  assumes "map gate_view xs = map gate_view ys" and "y \<in> set ys"
  shows "\<exists>x \<in> set xs. gate_view x = gate_view y"
proof -
  have "gate_view y \<in> set (map gate_view ys)" using assms(2) by simp
  then have "gate_view y \<in> set (map gate_view xs)" unfolding assms(1) .
  then show ?thesis by auto
qed

lemma allocate_after_unblock:
  assumes d: "distinct (map c_id (convoys conn))"
    and cc: "get_convoy conn completed = Some cc"
    and c: "get_convoy conn k = Some c"
    and f: "c_feature_id c = c_feature_id cc"
    and b: "c_status c = Blocked"
    and m: "check_convoy_dependencies_met conn k"
    and sole: "\<forall>x \<in> set (convoys (snd (unblock_dependent_convoys conn completed now))).
           c_feature_id x = c_feature_id cc \<and> c_status x = Available \<longrightarrow> c_id x = k"
  shows "allocate_next_convoy (snd (unblock_dependent_convoys conn completed now))
           (c_feature_id cc) agent now' =
         (Some k, update_convoy_status (snd (unblock_dependent_convoys conn completed now)) k
                    ConvInProgress (Some agent) now')"
proof -
  define conn1 where "conn1 = snd (unblock_dependent_convoys conn completed now)"
  note fl = unblock_dependent_convoys_flips [OF d cc c f b m, of now, folded conn1_def]
  have cm: "c \<in> set (convoys conn)" "c_id c = k"
    using get_convoy_Some [OF c] by simp_all
  from gate_view_member [OF fl(1) cm(1)] obtain x
    where x: "x \<in> set (convoys conn1)" "gate_view x = gate_view c" by blast
  from x(2) cm(2) f have xi: "c_id x = k" "c_feature_id x = c_feature_id cc"
    by (simp_all add: gate_view_def)
  from fl(2) x(1) xi(1) have xs: "c_status x = Available" by blast
  let ?cs = "list_convoys_by_feature conn1 (c_feature_id cc) (Some Available)"
  have xin: "x \<in> set ?cs" using x(1) xi(2) xs by (simp add: list_convoys_by_feature_set)
  obtain y ys where s: "sort_key (\<lambda>c. (c_priority c, c_created_at c)) ?cs = y # ys"
  proof (cases "sort_key (\<lambda>c. (c_priority c, c_created_at c)) ?cs")
    case Nil
    then have "set (sort_key (\<lambda>c. (c_priority c, c_created_at c)) ?cs) = {}" by simp
    then have "set ?cs = {}" by simp
    with xin show ?thesis by simp
  next
    case (Cons y ys)
    then show ?thesis by (rule that)
  qed
  from sort_key_head_least [OF s] have "y \<in> set ?cs" by blast
  then have ym: "y \<in> set (convoys conn1)" "c_feature_id y = c_feature_id cc" "c_status y = Available"
    by (simp_all add: list_convoys_by_feature_set)
  from sole [folded conn1_def] ym have yk: "c_id y = k" by blast
  have "check_convoy_dependencies_met conn1 (c_id y)"
    using check_convoy_dependencies_met_cong [OF fl(1), of k] m yk by simp
  from allocate_next_convoy_head [OF s this, of agent now'] yk
  show ?thesis unfolding conn1_def by simp
qed

lemma example_convoys_distinct: "distinct (map c_id (convoys example_convoys))"
  by (simp add: example_convoys_def store_of_convoys_def example_convoy_def)

lemma example_convoys_allocate:
  "allocate_next_convoy example_convoys ''F2'' ''dev-001'' ''2026-01-02 00:00:00'' =
     (Some ''C_e'',
      update_convoy_status example_convoys ''C_e'' ConvInProgress (Some ''dev-001'')
        ''2026-01-02 00:00:00'')"
  by (simp add: allocate_next_convoy_def list_convoys_by_feature_def check_convoy_dependencies_met_def
      get_convoy_def example_convoys_def store_of_convoys_def example_convoy_def
      less_eq_prod_def less_prod_def)

lemma example_convoys_unblock:
  "unblock_dependent_convoys example_convoys ''C_b'' ''2026-01-02 00:00:00'' =
     (1, store_of_convoys [example_feature ''F1'', example_feature ''F2'']
     [example_convoy ''C_b'' ''F1'' ''P1'' ConvDone [''src/b.py''] [] ''2026-01-01 00:00:01'',
      example_convoy ''C_a'' ''F1'' ''P2'' Available [''src/a.py''] [''C_b''] ''2026-01-01 00:00:02'',
      example_convoy ''C_c'' ''F2'' ''P2'' Available [''src/c.py''] [] ''2026-01-01 00:00:04'',
      example_convoy ''C_d'' ''F2'' ''P2'' Available [''src/d.py''] [] ''2026-01-01 00:00:03'',
      example_convoy ''C_e'' ''F2'' ''P1'' Available [''src/e.py''] [] ''2026-01-01 00:00:05''])"
  by (simp add: unblock_dependent_convoys_def list_convoys_by_feature_def
      check_convoy_dependencies_met_def update_convoy_status_def
      get_convoy_def example_convoys_def store_of_convoys_def example_convoy_def)

text \<open>
  C8. The identifiers of the convoys table are its primary key. Whenever
  \<open>allocate_next_convoy\<close> returns a convoy, that convoy was an available convoy of the
  feature before the call, each of its dependencies was a stored convoy that was done, and
  it was least in the lexicographic order of (priority, created_at) among the available
  convoys of the feature; after the call it is in progress and assigned to the agent. And
  when a blocked convoy of the feature of a completed convoy has all its dependencies done,
  the sweep \<open>unblock_dependent_convoys\<close> makes it available; if it is then the only
  available convoy of the feature, the next \<open>allocate_next_convoy\<close> returns it.
\<close>

theorem allocate_next_convoy_strict_priority:
  assumes "distinct (map c_id (convoys conn))"
  shows "(allocate_next_convoy conn f agent now = (Some cid, conn') \<longrightarrow>
            (\<exists>c. get_convoy conn cid = Some c \<and> c_feature_id c = f \<and> c_status c = Available
               \<and> (\<forall>ds. c_dependencies c = Some ds \<longrightarrow>
                     (\<forall>d \<in> set ds. \<exists>dc. get_convoy conn d = Some dc \<and> c_status dc = ConvDone))
               \<and> (\<forall>c' \<in> set (convoys conn). c_feature_id c' = f \<and> c_status c' = Available \<longrightarrow>
                     (c_priority c, c_created_at c) \<le> (c_priority c', c_created_at c')))
          \<and> (\<exists>c'. get_convoy conn' cid = Some c' \<and> c_status c' = ConvInProgress
                \<and> c_assignee c' = Some agent))
       \<and> (get_convoy conn completed = Some cc \<and> get_convoy conn k = Some b
            \<and> c_feature_id b = c_feature_id cc \<and> c_status b = Blocked
            \<and> check_convoy_dependencies_met conn k
            \<and> (\<forall>x \<in> set (convoys (snd (unblock_dependent_convoys conn completed sweep_now))).
                  c_feature_id x = c_feature_id cc \<and> c_status x = Available \<longrightarrow> c_id x = k) \<longrightarrow>
            (\<forall>x \<in> set (convoys (snd (unblock_dependent_convoys conn completed sweep_now))).
                  c_id x = k \<longrightarrow> c_status x = Available)
          \<and> allocate_next_convoy (snd (unblock_dependent_convoys conn completed sweep_now))
                (c_feature_id cc) next_agent next_now =
              (Some k, update_convoy_status (snd (unblock_dependent_convoys conn completed sweep_now)) k
                         ConvInProgress (Some next_agent) next_now))"
proof (intro conjI impI)
  assume "allocate_next_convoy conn f agent now = (Some cid, conn')"
  note l = allocate_next_convoy_least [OF assms this]
  from l show "\<exists>c. get_convoy conn cid = Some c \<and> c_feature_id c = f \<and> c_status c = Available
               \<and> (\<forall>ds. c_dependencies c = Some ds \<longrightarrow>
                     (\<forall>d \<in> set ds. \<exists>dc. get_convoy conn d = Some dc \<and> c_status dc = ConvDone))
               \<and> (\<forall>c' \<in> set (convoys conn). c_feature_id c' = f \<and> c_status c' = Available \<longrightarrow>
                     (c_priority c, c_created_at c) \<le> (c_priority c', c_created_at c'))"
    by (rule conjunct1)
  from l show "\<exists>c'. get_convoy conn' cid = Some c' \<and> c_status c' = ConvInProgress
                \<and> c_assignee c' = Some agent"
    by (rule conjunct2)
next
  assume h: "get_convoy conn completed = Some cc \<and> get_convoy conn k = Some b
            \<and> c_feature_id b = c_feature_id cc \<and> c_status b = Blocked
            \<and> check_convoy_dependencies_met conn k
            \<and> (\<forall>x \<in> set (convoys (snd (unblock_dependent_convoys conn completed sweep_now))).
                  c_feature_id x = c_feature_id cc \<and> c_status x = Available \<longrightarrow> c_id x = k)"
  from h have cc: "get_convoy conn completed = Some cc" by (rule conjunct1)
  from h have b: "get_convoy conn k = Some b" by (rule conjunct2 [THEN conjunct1])
  from h have f: "c_feature_id b = c_feature_id cc"
    by (rule conjunct2 [THEN conjunct2, THEN conjunct1])
  from h have s: "c_status b = Blocked"
    by (rule conjunct2 [THEN conjunct2, THEN conjunct2, THEN conjunct1])
  from h have m: "check_convoy_dependencies_met conn k"
    by (rule conjunct2 [THEN conjunct2, THEN conjunct2, THEN conjunct2, THEN conjunct1])
  from h have sole: "\<forall>x \<in> set (convoys (snd (unblock_dependent_convoys conn completed sweep_now))).
                  c_feature_id x = c_feature_id cc \<and> c_status x = Available \<longrightarrow> c_id x = k"
    by (rule conjunct2 [THEN conjunct2, THEN conjunct2, THEN conjunct2, THEN conjunct2])
  show "\<forall>x \<in> set (convoys (snd (unblock_dependent_convoys conn completed sweep_now))).
                  c_id x = k \<longrightarrow> c_status x = Available"
    by (rule unblock_dependent_convoys_flips(2) [OF assms cc b f s m])
  show "allocate_next_convoy (snd (unblock_dependent_convoys conn completed sweep_now))
                (c_feature_id cc) next_agent next_now =
              (Some k, update_convoy_status (snd (unblock_dependent_convoys conn completed sweep_now)) k
                         ConvInProgress (Some next_agent) next_now)"
    by (rule allocate_after_unblock [OF assms cc b f s m sole])
qed

theorem allocate_next_convoy_strict_priority_witness:
  "distinct (map c_id (convoys example_convoys))
   \<and> allocate_next_convoy example_convoys ''F2'' ''dev-001'' ''2026-01-02 00:00:00'' =
       (Some ''C_e'',
        update_convoy_status example_convoys ''C_e'' ConvInProgress (Some ''dev-001'')
          ''2026-01-02 00:00:00'')
   \<and> map_option c_status
        (get_convoy (update_convoy_status example_convoys ''C_e'' ConvInProgress (Some ''dev-001'')
          ''2026-01-02 00:00:00'') ''C_e'') = Some ConvInProgress
   \<and> map_option c_assignee
        (get_convoy (update_convoy_status example_convoys ''C_e'' ConvInProgress (Some ''dev-001'')
          ''2026-01-02 00:00:00'') ''C_e'') = Some (Some ''dev-001'')
   \<and> fst (unblock_dependent_convoys example_convoys ''C_b'' ''2026-01-02 00:00:00'') = 1
   \<and> fst (allocate_next_convoy
             (snd (unblock_dependent_convoys example_convoys ''C_b'' ''2026-01-02 00:00:00''))
             ''F1'' ''dev-002'' ''2026-01-02 00:00:01'') = Some ''C_a''"
proof -
  let ?cc = "example_convoy ''C_b'' ''F1'' ''P1'' ConvDone [''src/b.py''] [] ''2026-01-01 00:00:01''"
  let ?b = "example_convoy ''C_a'' ''F1'' ''P2'' Blocked [''src/a.py''] [''C_b''] ''2026-01-01 00:00:02''"
  note t = allocate_next_convoy_strict_priority [OF example_convoys_distinct,
      where f = "''F2''" and agent = "''dev-001''" and now = "''2026-01-02 00:00:00''"
        and cid = "''C_e''"
        and conn' = "update_convoy_status example_convoys ''C_e'' ConvInProgress (Some ''dev-001'')
          ''2026-01-02 00:00:00''"
        and completed = "''C_b''" and cc = ?cc and k = "''C_a''" and b = ?b
        and sweep_now = "''2026-01-02 00:00:00''" and next_agent = "''dev-002''"
        and next_now = "''2026-01-02 00:00:01''"]
  from t [THEN conjunct1, THEN mp, OF example_convoys_allocate, THEN conjunct2]
  obtain c' where c': "get_convoy (update_convoy_status example_convoys ''C_e'' ConvInProgress
      (Some ''dev-001'') ''2026-01-02 00:00:00'') ''C_e'' = Some c'"
    "c_status c' = ConvInProgress" "c_assignee c' = Some ''dev-001''"
    by blast
  have a1: "map_option c_status
        (get_convoy (update_convoy_status example_convoys ''C_e'' ConvInProgress (Some ''dev-001'')
          ''2026-01-02 00:00:00'') ''C_e'') = Some ConvInProgress"
    unfolding c'(1) using c'(2) by simp
  have a2: "map_option c_assignee
        (get_convoy (update_convoy_status example_convoys ''C_e'' ConvInProgress (Some ''dev-001'')
          ''2026-01-02 00:00:00'') ''C_e'') = Some (Some ''dev-001'')"
    unfolding c'(1) using c'(3) by simp
  have h1: "get_convoy example_convoys ''C_b'' = Some ?cc"
    by (simp add: get_convoy_def example_convoys_def store_of_convoys_def example_convoy_def)
  have h2: "get_convoy example_convoys ''C_a'' = Some ?b"
    by (simp add: get_convoy_def example_convoys_def store_of_convoys_def example_convoy_def)
  have h3: "c_feature_id ?b = c_feature_id ?cc" by (simp add: example_convoy_def)
  have h4: "c_status ?b = Blocked" by (simp add: example_convoy_def)
  have h5: "check_convoy_dependencies_met example_convoys ''C_a''"
    by (simp add: check_convoy_dependencies_met_def get_convoy_def example_convoys_def
        store_of_convoys_def example_convoy_def)
  have h6: "\<forall>x \<in> set (convoys (snd (unblock_dependent_convoys example_convoys ''C_b''
                ''2026-01-02 00:00:00''))).
              c_feature_id x = c_feature_id ?cc \<and> c_status x = Available \<longrightarrow> c_id x = ''C_a''"
    unfolding example_convoys_unblock
    by (simp add: store_of_convoys_def example_convoy_def)
  have h: "get_convoy example_convoys ''C_b'' = Some ?cc \<and> get_convoy example_convoys ''C_a'' = Some ?b
            \<and> c_feature_id ?b = c_feature_id ?cc \<and> c_status ?b = Blocked
            \<and> check_convoy_dependencies_met example_convoys ''C_a''
            \<and> (\<forall>x \<in> set (convoys (snd (unblock_dependent_convoys example_convoys ''C_b''
                ''2026-01-02 00:00:00''))).
              c_feature_id x = c_feature_id ?cc \<and> c_status x = Available \<longrightarrow> c_id x = ''C_a'')"
    using h1 h2 h3 h4 h5 h6 by (intro conjI)
  have f1: "c_feature_id ?cc = ''F1''" by (simp add: example_convoy_def)
  have a3: "fst (allocate_next_convoy
             (snd (unblock_dependent_convoys example_convoys ''C_b'' ''2026-01-02 00:00:00''))
             ''F1'' ''dev-002'' ''2026-01-02 00:00:01'') = Some ''C_a''"
    using t [THEN conjunct2, THEN mp, OF h, THEN conjunct2] unfolding f1 by simp
  have a4: "fst (unblock_dependent_convoys example_convoys ''C_b'' ''2026-01-02 00:00:00'') = 1"
    unfolding example_convoys_unblock by simp
  from example_convoys_distinct example_convoys_allocate a1 a2 a4 a3 show ?thesis
    by (intro conjI)
qed
section \<open>Completion detection\<close>

lemma list_tasks_by_convoy_empty:
  "list_tasks_by_convoy conn cid None = [] \<longleftrightarrow> (\<forall>t \<in> set (tasks conn). t_convoy_id t \<noteq> cid)"
proof -
  have "list_tasks_by_convoy conn cid None = [] \<longleftrightarrow>
        set (list_tasks_by_convoy conn cid None) = {}"
    by simp
  also have "\<dots> \<longleftrightarrow> (\<forall>t \<in> set (tasks conn). t_convoy_id t \<noteq> cid)"
    by (auto simp add: list_tasks_by_convoy_def)
  finally show ?thesis .
qed

lemma list_convoys_by_feature_empty:
  "list_convoys_by_feature conn fid None = [] \<longleftrightarrow> (\<forall>c \<in> set (convoys conn). c_feature_id c \<noteq> fid)"
proof -
  have "list_convoys_by_feature conn fid None = [] \<longleftrightarrow>
        set (list_convoys_by_feature conn fid None) = {}"
    by simp
  also have "\<dots> \<longleftrightarrow> (\<forall>c \<in> set (convoys conn). c_feature_id c \<noteq> fid)"
    by (auto simp add: list_convoys_by_feature_def)
  finally show ?thesis .
qed

text \<open>
  C9. A convoy with no task is never marked done: \<open>check_convoy_completion\<close> returns false
  and leaves the store as it was. It returns true exactly when the convoy has at least
  one task and all its tasks are done. \<open>check_feature_completion\<close> likewise returns false
  and changes nothing for a feature with no convoy.
\<close>

theorem empty_convoy_never_completes:
  "((\<forall>t \<in> set (tasks conn). t_convoy_id t \<noteq> cid) \<longrightarrow>
      check_convoy_completion conn cid now = (False, conn))
   \<and> (fst (check_convoy_completion conn cid now) \<longleftrightarrow>
        (\<exists>t \<in> set (tasks conn). t_convoy_id t = cid) \<and>
        (\<forall>t \<in> set (tasks conn). t_convoy_id t = cid \<longrightarrow> t_status t = Done))
   \<and> ((\<forall>c \<in> set (convoys conn). c_feature_id c \<noteq> fid) \<longrightarrow>
        check_feature_completion conn fid now = (False, conn))"
proof (intro conjI impI)
  assume "\<forall>t \<in> set (tasks conn). t_convoy_id t \<noteq> cid"
  then have "list_tasks_by_convoy conn cid None = []"
    by (simp add: list_tasks_by_convoy_empty)
  then show "check_convoy_completion conn cid now = (False, conn)"
    by (simp add: check_convoy_completion_def)
next
  have s: "set (list_tasks_by_convoy conn cid None) = {t \<in> set (tasks conn). t_convoy_id t = cid}"
    by (auto simp add: list_tasks_by_convoy_def)
  show "fst (check_convoy_completion conn cid now) \<longleftrightarrow>
        (\<exists>t \<in> set (tasks conn). t_convoy_id t = cid) \<and>
        (\<forall>t \<in> set (tasks conn). t_convoy_id t = cid \<longrightarrow> t_status t = Done)"
  proof (cases "list_tasks_by_convoy conn cid None = []")
    case True
    then have "\<forall>t \<in> set (tasks conn). t_convoy_id t \<noteq> cid"
      by (simp add: list_tasks_by_convoy_empty)
    with True show ?thesis by (auto simp add: check_convoy_completion_def)
  next
    case False
    then have e: "\<exists>t \<in> set (tasks conn). t_convoy_id t = cid"
      by (simp add: list_tasks_by_convoy_empty)
    have "fst (check_convoy_completion conn cid now) \<longleftrightarrow>
          (\<forall>t \<in> set (list_tasks_by_convoy conn cid None). t_status t = Done)"
      using False by (simp add: check_convoy_completion_def Let_def list_all_iff)
    with e s show ?thesis by auto
  qed
next
  assume "\<forall>c \<in> set (convoys conn). c_feature_id c \<noteq> fid"
  then have "list_convoys_by_feature conn fid None = []"
    by (simp add: list_convoys_by_feature_empty)
  then show "check_feature_completion conn fid now = (False, conn)"
    by (simp add: check_feature_completion_def)
qed

theorem empty_convoy_never_completes_witness:
  "check_convoy_completion (store_of_tasks [example_task ''T1'' Done None 0]) ''C2''
       ''2026-01-01 00:00:00'' = (False, store_of_tasks [example_task ''T1'' Done None 0])
   \<and> fst (check_convoy_completion (store_of_tasks [example_task ''T1'' Done None 0]) ''C1''
       ''2026-01-01 00:00:00'')
   \<and> check_feature_completion (store_of_tasks []) ''F1'' ''2026-01-01 00:00:00''
       = (False, store_of_tasks [])"
proof -
  have a: "\<forall>t \<in> set (tasks (store_of_tasks [example_task ''T1'' Done None 0])). t_convoy_id t \<noteq> ''C2''"
    by (simp add: store_of_tasks_def example_task_def)
  have b: "(\<exists>t \<in> set (tasks (store_of_tasks [example_task ''T1'' Done None 0])). t_convoy_id t = ''C1'')
    \<and> (\<forall>t \<in> set (tasks (store_of_tasks [example_task ''T1'' Done None 0])).
          t_convoy_id t = ''C1'' \<longrightarrow> t_status t = Done)"
    by (simp add: store_of_tasks_def example_task_def)
  have c: "\<forall>c \<in> set (convoys (store_of_tasks [])). c_feature_id c \<noteq> ''F1''"
    by (simp add: store_of_tasks_def)
  show ?thesis
    using a b c
      empty_convoy_never_completes [of "store_of_tasks [example_task ''T1'' Done None 0]" "''C2''"
        "''2026-01-01 00:00:00''" "''F1''"]
      empty_convoy_never_completes [of "store_of_tasks [example_task ''T1'' Done None 0]" "''C1''"
        "''2026-01-01 00:00:00''" "''F1''"]
      empty_convoy_never_completes [of "store_of_tasks []" "''C1''"
        "''2026-01-01 00:00:00''" "''F1''"]
    by blast
qed

section \<open>Heartbeats\<close>

text \<open>
  C10. \<open>record_heartbeat\<close> touches nothing but the table of sessions, keeps its rows in
  place, leaves every row that is not active (crashed, hung or stuck) or that belongs to
  another agent exactly as it was, and on the active row of the agent changes
  \<open>last_heartbeat\<close> and no other field.
\<close>

theorem record_heartbeat_only_active:
  "record_heartbeat conn agent_id now =
     conn\<lparr>agent_sessions := agent_sessions (record_heartbeat conn agent_id now)\<rparr>
   \<and> length (agent_sessions (record_heartbeat conn agent_id now)) = length (agent_sessions conn)
   \<and> (\<forall>i < length (agent_sessions conn).
        (a_status (agent_sessions conn ! i) \<noteq> Active \<or> a_agent_id (agent_sessions conn ! i) \<noteq> agent_id
           \<longrightarrow> agent_sessions (record_heartbeat conn agent_id now) ! i = agent_sessions conn ! i)
        \<and> (a_status (agent_sessions conn ! i) = Active \<and> a_agent_id (agent_sessions conn ! i) = agent_id
           \<longrightarrow> agent_sessions (record_heartbeat conn agent_id now) ! i
                 = (agent_sessions conn ! i)\<lparr>a_last_heartbeat := now\<rparr>))"
  by (simp add: record_heartbeat_def)

theorem record_heartbeat_only_active_witness:
  "agent_sessions (record_heartbeat
      (store_of_sessions [example_session ''dev-001'' Crashed ''2026-01-01T00:00:00'',
                          example_session ''dev-002'' Active ''2026-01-01T00:00:00''])
      ''dev-001'' ''2026-01-01T00:05:00'') ! 0
     = example_session ''dev-001'' Crashed ''2026-01-01T00:00:00''
   \<and> agent_sessions (record_heartbeat
      (store_of_sessions [example_session ''dev-001'' Crashed ''2026-01-01T00:00:00'',
                          example_session ''dev-002'' Active ''2026-01-01T00:00:00''])
      ''dev-002'' ''2026-01-01T00:05:00'') ! 1
     = example_session ''dev-002'' Active ''2026-01-01T00:05:00''"
proof -
  let ?s = "store_of_sessions [example_session ''dev-001'' Crashed ''2026-01-01T00:00:00'',
                          example_session ''dev-002'' Active ''2026-01-01T00:00:00'']"
  have l: "0 < length (agent_sessions ?s)" "1 < length (agent_sessions ?s)"
    by (simp_all add: store_of_sessions_def)
  have a: "a_status (agent_sessions ?s ! 0) \<noteq> Active"
    by (simp add: store_of_sessions_def example_session_def)
  have b: "a_status (agent_sessions ?s ! 1) = Active \<and> a_agent_id (agent_sessions ?s ! 1) = ''dev-002''"
    by (simp add: store_of_sessions_def example_session_def)
  have c: "(agent_sessions ?s ! 0) = example_session ''dev-001'' Crashed ''2026-01-01T00:00:00''"
    "(agent_sessions ?s ! 1)\<lparr>a_last_heartbeat := ''2026-01-01T00:05:00''\<rparr>
       = example_session ''dev-002'' Active ''2026-01-01T00:05:00''"
    by (simp_all add: store_of_sessions_def example_session_def)
  from record_heartbeat_only_active [of ?s "''dev-001''" "''2026-01-01T00:05:00''"] l(1) a c(1)
  have 1: "agent_sessions (record_heartbeat ?s ''dev-001'' ''2026-01-01T00:05:00'') ! 0
     = example_session ''dev-001'' Crashed ''2026-01-01T00:00:00''"
    by metis
  from record_heartbeat_only_active [of ?s "''dev-002''" "''2026-01-01T00:05:00''"] l(2) b c(2)
  have 2: "agent_sessions (record_heartbeat ?s ''dev-002'' ''2026-01-01T00:05:00'') ! 1
     = example_session ''dev-002'' Active ''2026-01-01T00:05:00''"
    by metis
  from 1 2 show ?thesis by simp
qed

section \<open>Acknowledging events\<close>

text \<open>What \<open>acknowledge_event\<close> does to a row: the update has no condition on the status.\<close>

lemma acknowledge_event_rows:
  "events (acknowledge_event conn event_id success now) =
     map (\<lambda>e. if e_id e = event_id
               then e\<lparr>e_status := (if success then EvDone else EvFailed), e_processed_at := Some now\<rparr>
               else e) (events conn)"
  by (simp add: acknowledge_event_def)

text \<open>
  C7. Acknowledging an event that is not being processed is meant to change nothing. Here
  an event that is already done, processed at 00:05:00, is acknowledged once more with
  \<open>success = False\<close> a day later: the row becomes failed and its \<open>processed_at\<close> is
  stamped again.
\<close>

theorem acknowledge_event_overwrites_done_event:
  "events (acknowledge_event
     (store_of_events [example_event ''e1'' ''tester'' EvDone ''2026-01-01 00:00:00''
                         (Some ''2026-01-01 00:05:00'')])
     ''e1'' False ''2026-01-02 00:00:00'')
   = [example_event ''e1'' ''tester'' EvFailed ''2026-01-01 00:00:00''
        (Some ''2026-01-02 00:00:00'')]"
  by (simp add: acknowledge_event_def store_of_events_def example_event_def)

section \<open>Quality gates\<close>

lemma all_gates_passed_iff:
  "all_gates_passed results \<longleftrightarrow> (\<forall>r \<in> set results. g_status r \<noteq> FAIL \<and> g_status r \<noteq> ERROR)"
  by (induction results) auto

text \<open>
  C6. A failing optional gate is meant not to fail the stage. In stage \<open>tests\<close>, with
  coverage passing and the optional mutation gate returning FAIL, the only required gate
  has passed, yet \<open>all_gates_passed\<close> is false.
\<close>

theorem optional_gate_failure_blocks_stage:
  "map g_gate_type (run_all_gates example_tools ''tests'') = [COVERAGE, MUTATION]
   \<and> map g_status (run_all_gates example_tools ''tests'') = [PASS, FAIL]
   \<and> all_gates_passed (run_all_gates example_tools ''tests'') = False"
  by (simp add: run_all_gates_def run_gate_def example_tools_def)


end
